theory Spec2Isabelle
  imports Main "HOL-Library.Word" "HOL-Library.Sublist"
begin

section \<open>The multi-agent transaction test component\<close>

text \<open>
  A shallow embedding of \<^verbatim>\<open>src/MultiAgentTest.tsx\<close>: the React component
  \<^verbatim>\<open>MultiAgentTest\<close> with its five state variables and its three step handlers.
  The wallet adapter, the chain SDK, \<^verbatim>\<open>fetch\<close>, \<^verbatim>\<open>prompt\<close> and the clock are
  collaborators outside the repository; their answers are the fields of an environment
  record, one environment for each invocation of a handler (the operator switches wallets
  between the steps). State updates are applied in program order.
\<close>

subsection \<open>JavaScript values\<close>

type_synonym byte = "8 word"

text \<open>
  What \<^verbatim>\<open>catch (error: any)\<close> can receive: an Error object (\<^verbatim>\<open>name\<close>, \<^verbatim>\<open>message\<close>),
  as \<^verbatim>\<open>fetch\<close> and the SDK throw; a string, as the wallet adapter throws; and
  \<^verbatim>\<open>null\<close> or \<^verbatim>\<open>undefined\<close>, with which any promise can be rejected.
\<close>

datatype js_error = ErrorObject string string | ThrownString string | ThrownNull | ThrownUndefined

text \<open>
  Reading \<^verbatim>\<open>error.message\<close>: the message of an Error object, \<^verbatim>\<open>undefined\<close> (here
  \<open>None\<close>) on a string, and a TypeError on \<^verbatim>\<open>null\<close> and \<^verbatim>\<open>undefined\<close>, which have no
  properties. The wording of that TypeError is the engine's (here V8's).
\<close>

fun error_message :: "js_error \<Rightarrow> js_error + string option" where
  "error_message (ErrorObject nm msg) = Inr (Some msg)"
| "error_message (ThrownString s) = Inr None"
| "error_message ThrownNull =
     Inl (ErrorObject ''TypeError'' ''Cannot read properties of null (reading 'message')'')"
| "error_message ThrownUndefined =
     Inl (ErrorObject ''TypeError'' ''Cannot read properties of undefined (reading 'message')'')"

text \<open>
  The value converted to a string, as a template literal and the console do: for an
  Error object \<^verbatim>\<open>Error.prototype.toString\<close>, the name and the message with a colon
  between them, or the one of the two that is not empty.
\<close>

fun error_string :: "js_error \<Rightarrow> string" where
  "error_string (ErrorObject nm msg) =
     (if nm = [] then msg else if msg = [] then nm else nm @ '': '' @ msg)"
| "error_string (ThrownString s) = s"
| "error_string ThrownNull = ''null''"
| "error_string ThrownUndefined = ''undefined''"

text \<open>
  The text of \<^verbatim>\<open>`${error.message || error}`\<close>: the message when it is a non-empty
  string, otherwise the value itself converted to a string; evaluating it throws when
  reading the message throws.
\<close>

definition error_text :: "js_error \<Rightarrow> js_error + string" where
  "error_text e =
     (case error_message e of
        Inl type_error \<Rightarrow> Inl type_error
      | Inr None \<Rightarrow> Inr (error_string e)
      | Inr (Some msg) \<Rightarrow> Inr (if msg \<noteq> [] then msg else error_string e))"

text \<open>\<^verbatim>\<open>String.prototype.startsWith\<close>, \<^verbatim>\<open>slice(2)\<close>, \<^verbatim>\<open>substring(0, n)\<close>, \<^verbatim>\<open>includes\<close>.\<close>

definition startsWith :: "string \<Rightarrow> string \<Rightarrow> bool" where
  "startsWith s p = (take (length p) s = p)"

definition slice_from :: "nat \<Rightarrow> string \<Rightarrow> string" where
  "slice_from n s = drop n s"

definition substring0 :: "nat \<Rightarrow> string \<Rightarrow> string" where
  "substring0 n s = take n s"

fun includes_str :: "string \<Rightarrow> string \<Rightarrow> bool" where
  "includes_str [] p = (p = [])"
| "includes_str (c # cs) p = (startsWith (c # cs) p \<or> includes_str cs p)"

text \<open>A number in a template literal: its decimal digits.\<close>

definition digit :: "nat \<Rightarrow> char" where
  "digit d = ''0123456789'' ! (d mod 10)"

fun show_nat :: "nat \<Rightarrow> string" where
  "show_nat n = (if n < 10 then [digit n] else show_nat (n div 10) @ [digit n])"

declare show_nat.simps [simp del]

definition show_bool :: "bool \<Rightarrow> string" where
  "show_bool b = (if b then ''true'' else ''false'')"

subsection \<open>Collaborators\<close>

text \<open>The response of \<^verbatim>\<open>fetch\<close>; reading its body (\<^verbatim>\<open>arrayBuffer()\<close>) may fail.\<close>

datatype response = Response "js_error + byte list"

fun arrayBuffer :: "response \<Rightarrow> js_error + byte list" where
  "arrayBuffer (Response body) = body"

text \<open>An entry of \<^verbatim>\<open>functionArguments\<close>: \<^verbatim>\<open>new U64(n)\<close> or an account address.\<close>

datatype 'addr argument = U64 "64 word" | Address 'addr

text \<open>The argument of \<^verbatim>\<open>movement.transaction.build.multiAgent\<close>.\<close>

record 'addr build_input =
  sender :: 'addr
  secondarySignerAddresses :: "'addr list"
  bytecode :: "byte list"
  functionArguments :: "'addr argument list"
  expireTimestamp :: nat

text \<open>
  The calls that leave the component: network, operator, wallet. Each is recorded in
  the state's trace when it is issued, before its answer is known.
\<close>

datatype ('addr, 'tx, 'au) call =
    Fetch string
  | Prompt string
  | BuildMultiAgent "'addr build_input"
  | SignTransaction 'tx
  | SubmitTransaction 'tx 'au "'au list"
  | WaitForTransaction string

text \<open>
  The environment of one invocation. \<open>'addr\<close>, \<open>'tx\<close> and \<open>'au\<close> are the SDK's
  \<^verbatim>\<open>AccountAddress\<close>, \<^verbatim>\<open>MultiAgentTransaction\<close> and \<^verbatim>\<open>AccountAuthenticator\<close>.
  \<^item> \<open>account\<close>: \<^verbatim>\<open>account\<close> of \<^verbatim>\<open>useWallet()\<close>, by its address; \<open>None\<close> when no
    wallet is connected;
  \<^item> \<open>fetch\<close>, \<open>prompt\<close> (\<open>None\<close> is \<^verbatim>\<open>null\<close>: the operator cancelled);
  \<^item> \<open>addressFrom\<close>: \<^verbatim>\<open>AccountAddress.from\<close>;
  \<^item> \<open>buildMultiAgent\<close>: \<^verbatim>\<open>movement.transaction.build.multiAgent\<close>;
  \<^item> \<open>tx_bcsToHex\<close>, \<open>au_bcsToHex\<close>: \<^verbatim>\<open>bcsToHex().toString()\<close> of a transaction and
    of an authenticator;
  \<^item> \<open>hexToBytes\<close>: \<^verbatim>\<open>Hex.fromHexString(s).toUint8Array()\<close>;
  \<^item> \<open>tx_deserialize\<close>, \<open>au_deserialize\<close>: \<^verbatim>\<open>deserialize(new Deserializer(bytes))\<close>
    of the two classes;
  \<^item> \<open>signTransaction\<close>: the \<^verbatim>\<open>authenticator\<close> of the wallet's answer;
  \<^item> \<open>submitTransaction\<close>: the \<^verbatim>\<open>hash\<close> of the wallet's answer;
  \<^item> \<open>waitForTransaction\<close>: the \<^verbatim>\<open>success\<close> of the SDK's answer;
  \<^item> \<open>date_now\<close>: \<^verbatim>\<open>Date.now()\<close> where Step 1 computes the expiration, in epoch
    milliseconds;
  \<^item> \<open>stamp\<close>: \<^verbatim>\<open>new Date().toLocaleTimeString()\<close> as read by the updater of the n-th
    call of \<^verbatim>\<open>log\<close> of the session, at the moment React runs that updater.
\<close>

record ('addr, 'tx, 'au) env =
  account :: "string option"
  fetch :: "string \<Rightarrow> js_error + response"
  prompt :: "string \<Rightarrow> string option"
  addressFrom :: "string \<Rightarrow> js_error + 'addr"
  buildMultiAgent :: "'addr build_input \<Rightarrow> js_error + 'tx"
  tx_bcsToHex :: "'tx \<Rightarrow> js_error + string"
  au_bcsToHex :: "'au \<Rightarrow> js_error + string"
  hexToBytes :: "string \<Rightarrow> js_error + byte list"
  tx_deserialize :: "byte list \<Rightarrow> js_error + 'tx"
  au_deserialize :: "byte list \<Rightarrow> js_error + 'au"
  signTransaction :: "'tx \<Rightarrow> js_error + 'au"
  submitTransaction :: "'tx \<Rightarrow> 'au \<Rightarrow> 'au list \<Rightarrow> js_error + string"
  waitForTransaction :: "string \<Rightarrow> js_error + bool"
  date_now :: nat
  stamp :: "nat \<Rightarrow> string"

subsection \<open>Component state\<close>

text \<open>
  The five \<^verbatim>\<open>useState\<close> variables, and what the component does to the outside: the
  console lines, the trace of calls, and the number of calls of \<^verbatim>\<open>log\<close> so far.
\<close>

record ('addr, 'tx, 'au) state =
  logs :: "string list"
  loading :: bool
  serializedTransaction :: string
  secondSignerSignature :: string
  secondSignerAddress :: string
  console :: "string list"
  calls :: "('addr, 'tx, 'au) call list"
  logged :: nat

definition initial_state :: "('addr, 'tx, 'au) state" where
  "initial_state =
     \<lparr>logs = [], loading = False, serializedTransaction = [], secondSignerSignature = [],
      secondSignerAddress = [], console = [], calls = [], logged = 0\<rparr>"

definition setLoading :: "bool \<Rightarrow> ('addr, 'tx, 'au) state \<Rightarrow> ('addr, 'tx, 'au) state" where
  "setLoading b st = st\<lparr>loading := b\<rparr>"

definition setSerializedTransaction ::
  "string \<Rightarrow> ('addr, 'tx, 'au) state \<Rightarrow> ('addr, 'tx, 'au) state" where
  "setSerializedTransaction v st = st\<lparr>serializedTransaction := v\<rparr>"

definition setSecondSignerSignature ::
  "string \<Rightarrow> ('addr, 'tx, 'au) state \<Rightarrow> ('addr, 'tx, 'au) state" where
  "setSecondSignerSignature v st = st\<lparr>secondSignerSignature := v\<rparr>"

definition setSecondSignerAddress ::
  "string \<Rightarrow> ('addr, 'tx, 'au) state \<Rightarrow> ('addr, 'tx, 'au) state" where
  "setSecondSignerAddress v st = st\<lparr>secondSignerAddress := v\<rparr>"

text \<open>
  The entry \<^verbatim>\<open>`[${new Date().toLocaleTimeString()}] ${msg}`\<close> of the n-th call of
  \<^verbatim>\<open>log\<close>. The time is read inside the updater passed to \<^verbatim>\<open>setLogs\<close>, so when React
  runs it; the updaters run in the order of the calls.
\<close>

definition log_entry :: "('addr, 'tx, 'au) env \<Rightarrow> nat \<Rightarrow> string \<Rightarrow> string" where
  "log_entry env n msg = ''['' @ stamp env n @ ''] '' @ msg"

definition log ::
  "('addr, 'tx, 'au) env \<Rightarrow> string \<Rightarrow> ('addr, 'tx, 'au) state \<Rightarrow> ('addr, 'tx, 'au) state" where
  "log env msg st =
     st\<lparr>console := console st @ [msg],
        logs := logs st @ [log_entry env (logged st) msg],
        logged := Suc (logged st)\<rparr>"

definition clearLogs :: "('addr, 'tx, 'au) state \<Rightarrow> ('addr, 'tx, 'au) state" where
  "clearLogs st = st\<lparr>logs := []\<rparr>"

text \<open>\<^verbatim>\<open>console.error("Full error:", error)\<close>: the label and the value.\<close>

definition console_error ::
  "js_error \<Rightarrow> ('addr, 'tx, 'au) state \<Rightarrow> ('addr, 'tx, 'au) state" where
  "console_error e st = st\<lparr>console := console st @ [''Full error: '' @ error_string e]\<rparr>"

definition issue ::
  "('addr, 'tx, 'au) call \<Rightarrow> ('addr, 'tx, 'au) state \<Rightarrow> ('addr, 'tx, 'au) state" where
  "issue c st = st\<lparr>calls := calls st @ [c]\<rparr>"

subsection \<open>Blocks, \<^verbatim>\<open>try\<close>/\<open>catch\<close>/\<open>finally\<close>, and the promise of a handler\<close>

text \<open>How a block ends: it runs to its end, it returns early, or it throws.\<close>

datatype outcome = Completed | ReturnedEarly | Threw js_error

text \<open>How the promise of an \<^verbatim>\<open>async\<close> handler settles.\<close>

datatype completion = Resolved | Rejected js_error

text \<open>
  \<^verbatim>\<open>try { body } catch (error) { handler } finally { finalizer }\<close> as the last statement
  of an \<^verbatim>\<open>async\<close> function: the handler runs when the body throws, the finalizer runs
  on every path, and what the handler throws rejects the promise.
\<close>

definition try_catch_finally ::
  "('s \<Rightarrow> outcome \<times> 's) \<Rightarrow> (js_error \<Rightarrow> 's \<Rightarrow> outcome \<times> 's) \<Rightarrow> ('s \<Rightarrow> 's) \<Rightarrow>
   's \<Rightarrow> completion \<times> 's" where
  "try_catch_finally body handler finalizer st =
     (case body st of
        (Threw e, st1) \<Rightarrow>
          (case handler e st1 of
             (Threw e', st2) \<Rightarrow> (Rejected e', finalizer st2)
           | (_, st2) \<Rightarrow> (Resolved, finalizer st2))
      | (_, st1) \<Rightarrow> (Resolved, finalizer st1))"

text \<open>
  The \<^verbatim>\<open>catch\<close> block shared by the three handlers. The argument of \<^verbatim>\<open>log\<close> is
  evaluated first: when that throws, nothing is logged and the block throws.
\<close>

definition catch_block ::
  "('addr, 'tx, 'au) env \<Rightarrow> js_error \<Rightarrow> ('addr, 'tx, 'au) state \<Rightarrow>
   outcome \<times> ('addr, 'tx, 'au) state" where
  "catch_block env e st =
     (case error_text e of
        Inl type_error \<Rightarrow> (Threw type_error, st)
      | Inr text \<Rightarrow> (Completed, console_error e (log env (''ERROR: '' @ text) st)))"

subsection \<open>\<^verbatim>\<open>loadScript\<close>\<close>

definition loadScript ::
  "('addr, 'tx, 'au) env \<Rightarrow> ('addr, 'tx, 'au) state \<Rightarrow>
   (js_error + byte list) \<times> ('addr, 'tx, 'au) state" where
  "loadScript env st0 =
     (let st1 = log env ''Loading transfer_two_by_two.mv script...'' st0;
          st2 = issue (Fetch ''/transfer_two_by_two.mv'') st1
      in case fetch env ''/transfer_two_by_two.mv'' of
           Inl e \<Rightarrow> (Inl e, st2)
         | Inr resp \<Rightarrow>
             (case arrayBuffer resp of
                Inl e \<Rightarrow> (Inl e, st2)
              | Inr buffer \<Rightarrow>
                  (Inr buffer,
                   log env (''Script loaded: '' @ show_nat (length buffer) @ '' bytes'') st2)))"

subsection \<open>Step 1: the first sender creates the transaction\<close>

text \<open>
  The \<^verbatim>\<open>try\<close> block of \<^verbatim>\<open>step1_CreateTransaction\<close>, for the connected address
  \<open>addr\<close>. \<^verbatim>\<open>new MovementConfig\<close> and \<^verbatim>\<open>new Movement\<close> only build the client object
  whose two methods are fields of the environment.
\<close>

definition step1_try ::
  "('addr, 'tx, 'au) env \<Rightarrow> string \<Rightarrow> ('addr, 'tx, 'au) state \<Rightarrow>
   outcome \<times> ('addr, 'tx, 'au) state" where
  "step1_try env addr st0 =
     (let st1 = log env ''=== STEP 1: Create Transaction (First Sender) ==='' st0;
          st2 = log env (''First sender (you): '' @ addr) st1
      in case loadScript env st2 of
           (Inl e, st3) \<Rightarrow> (Threw e, st3)
         | (Inr bytecode', st3) \<Rightarrow>
      (let st4 = issue (Prompt ''Enter second signer address (0x...):'') st3
       in case prompt env ''Enter second signer address (0x...):'' of
            None \<Rightarrow> (ReturnedEarly, log env ''ERROR: Second signer address required'' st4)
          | Some secondSignerAddr \<Rightarrow>
       if secondSignerAddr = [] then
         (ReturnedEarly, log env ''ERROR: Second signer address required'' st4)
       else
      (let st5 = setSecondSignerAddress secondSignerAddr st4;
           amountFirst = 1000;
           amountSecond = 1000
       in case addressFrom env addr of
            Inl e \<Rightarrow> (Threw e, st5)
          | Inr dstFirst \<Rightarrow>
      (case addressFrom env secondSignerAddr of
            Inl e \<Rightarrow> (Threw e, st5)
          | Inr dstSecond \<Rightarrow>
      (let depositFirst = 1000;
           st6 = log env ''Building multi-agent transaction (5 min expiration)...'' st5
       in case addressFrom env addr of
            Inl e \<Rightarrow> (Threw e, st6)
          | Inr sender_addr \<Rightarrow>
      (case addressFrom env secondSignerAddr of
            Inl e \<Rightarrow> (Threw e, st6)
          | Inr secondary_addr \<Rightarrow>
      (let input =
             \<lparr>sender = sender_addr,
              secondarySignerAddresses = [secondary_addr],
              bytecode = bytecode',
              functionArguments =
                [U64 amountFirst, U64 amountSecond, Address dstFirst, Address dstSecond,
                 U64 depositFirst],
              expireTimestamp = date_now env div 1000 + 300\<rparr>;
           st7 = issue (BuildMultiAgent input) st6
       in case buildMultiAgent env input of
            Inl e \<Rightarrow> (Threw e, st7)
          | Inr transaction \<Rightarrow>
      (case tx_bcsToHex env transaction of
            Inl e \<Rightarrow> (Threw e, st7)
          | Inr serializedTx \<Rightarrow>
      (let st8 = setSerializedTransaction serializedTx st7;
           st9 = log env ''Transaction created and serialized'' st8;
           st10 = log env (''Serialized TX: '' @ substring0 60 serializedTx @ ''...'') st9;
           st11 = log env [] st10;
           st12 = log env ''Now switch wallet to second signer and click Step 2'' st11
       in (Completed, st12))))))))))"

definition step1_CreateTransaction ::
  "('addr, 'tx, 'au) env \<Rightarrow> ('addr, 'tx, 'au) state \<Rightarrow> completion \<times> ('addr, 'tx, 'au) state"
  where
  "step1_CreateTransaction env st =
     (case account env of
        None \<Rightarrow> (Resolved, log env ''ERROR: No account connected'' st)
      | Some addr \<Rightarrow>
          try_catch_finally (step1_try env addr) (catch_block env) (setLoading False)
            (clearLogs (setLoading True st)))"

subsection \<open>Step 2: the second sender signs\<close>

text \<open>Lines 154 to 156: the prefix \<^verbatim>\<open>0x\<close> is added when it is missing.\<close>

definition with_0x :: "string \<Rightarrow> string" where
  "with_0x h = (if startsWith h ''0x'' then h else ''0x'' @ h)"

definition step2_try ::
  "('addr, 'tx, 'au) env \<Rightarrow> string \<Rightarrow> ('addr, 'tx, 'au) state \<Rightarrow>
   outcome \<times> ('addr, 'tx, 'au) state" where
  "step2_try env addr st0 =
     (let st1 = log env ''=== STEP 2: Second Sender Signs ==='' st0;
          st2 = log env (''Current wallet: '' @ addr) st1
      in case hexToBytes env (serializedTransaction st2) of
           Inl e \<Rightarrow> (Threw e, st2)
         | Inr tx_bytes \<Rightarrow>
      (case tx_deserialize env tx_bytes of
           Inl e \<Rightarrow> (Threw e, st2)
         | Inr transaction \<Rightarrow>
      (let st3 = log env ''Transaction deserialized'' st2;
           st4 = log env ''Requesting wallet signature...'' st3;
           st5 = issue (SignTransaction transaction) st4
       in case signTransaction env transaction of
            Inl e \<Rightarrow> (Threw e, st5)
          | Inr signature_authenticator \<Rightarrow>
      (let st6 = log env ''Wallet signed successfully'' st5
       in case au_bcsToHex env signature_authenticator of
            Inl e \<Rightarrow> (Threw e, st6)
          | Inr authenticatorBcsHex \<Rightarrow>
      (let authenticatorBcs = with_0x authenticatorBcsHex;
           st7 = setSecondSignerSignature authenticatorBcs st6;
           st8 = log env (''Serialized signature: '' @ substring0 60 authenticatorBcs @ ''...'') st7;
           st9 = log env [] st8;
           st10 = log env ''Now switch wallet back to first signer and click Step 3'' st9
       in (Completed, st10))))))"

definition step2_SecondSignerSign ::
  "('addr, 'tx, 'au) env \<Rightarrow> ('addr, 'tx, 'au) state \<Rightarrow> completion \<times> ('addr, 'tx, 'au) state"
  where
  "step2_SecondSignerSign env st =
     (case account env of
        None \<Rightarrow> (Resolved, log env ''ERROR: No account connected'' st)
      | Some addr \<Rightarrow>
          if serializedTransaction st = [] then
            (Resolved, log env ''ERROR: No transaction to sign. Run Step 1 first.'' st)
          else
            try_catch_finally (step2_try env addr) (catch_block env) (setLoading False)
              (setLoading True st))"

subsection \<open>Step 3: the first sender signs and submits\<close>

text \<open>Lines 197 to 199: the prefix \<^verbatim>\<open>0x\<close> is removed when it is there.\<close>

definition without_0x :: "string \<Rightarrow> string" where
  "without_0x h = (if startsWith h ''0x'' then slice_from 2 h else h)"

definition step3_try ::
  "('addr, 'tx, 'au) env \<Rightarrow> string \<Rightarrow> ('addr, 'tx, 'au) state \<Rightarrow>
   outcome \<times> ('addr, 'tx, 'au) state" where
  "step3_try env addr st0 =
     (let st1 = log env ''=== STEP 3: First Sender Signs & Submits ==='' st0;
          st2 = log env (''Current wallet: '' @ addr) st1
      in case hexToBytes env (serializedTransaction st2) of
           Inl e \<Rightarrow> (Threw e, st2)
         | Inr tx_bytes \<Rightarrow>
      (case tx_deserialize env tx_bytes of
           Inl e \<Rightarrow> (Threw e, st2)
         | Inr transaction \<Rightarrow>
      (let st3 = log env ''Transaction deserialized'' st2;
           signatureHex = without_0x (secondSignerSignature st3)
       in case hexToBytes env signatureHex of
            Inl e \<Rightarrow> (Threw e, st3)
          | Inr sig_bytes \<Rightarrow>
      (case au_deserialize env sig_bytes of
            Inl e \<Rightarrow> (Threw e, st3)
          | Inr reviewerSignature \<Rightarrow>
      (let st4 = log env ''Reviewer signature deserialized'' st3;
           st5 = log env ''Requesting wallet signature...'' st4;
           st6 = issue (SignTransaction transaction) st5
       in case signTransaction env transaction of
            Inl e \<Rightarrow> (Threw e, st6)
          | Inr senderSignature_authenticator \<Rightarrow>
      (let st7 = log env ''Wallet signed successfully'' st6;
           st8 = log env ''Submitting via wallet adapter submitTransaction...'' st7;
           st9 = issue (SubmitTransaction transaction senderSignature_authenticator
                          [reviewerSignature]) st8
       in case submitTransaction env transaction senderSignature_authenticator
                 [reviewerSignature] of
            Inl e \<Rightarrow> (Threw e, st9)
          | Inr tx_hash \<Rightarrow>
      (let st10 = log env (''SUCCESS! Transaction hash: '' @ tx_hash) st9;
           st11 = log env ''Waiting for confirmation...'' st10;
           st12 = issue (WaitForTransaction tx_hash) st11
       in case waitForTransaction env tx_hash of
            Inl e \<Rightarrow> (Threw e, st12)
          | Inr result_success \<Rightarrow>
              (Completed,
               log env (''Transaction confirmed: '' @ show_bool result_success) st12))))))))"

definition step3_FirstSignerSubmit ::
  "('addr, 'tx, 'au) env \<Rightarrow> ('addr, 'tx, 'au) state \<Rightarrow> completion \<times> ('addr, 'tx, 'au) state"
  where
  "step3_FirstSignerSubmit env st =
     (case account env of
        None \<Rightarrow> (Resolved, log env ''ERROR: No account connected'' st)
      | Some addr \<Rightarrow>
          if serializedTransaction st = [] \<or> secondSignerSignature st = [] then
            (Resolved,
             log env ''ERROR: Missing transaction or second signer signature. Complete Steps 1 and 2 first.'' st)
          else
            try_catch_finally (step3_try env addr) (catch_block env) (setLoading False)
              (setLoading True st))"

subsection \<open>The three buttons\<close>

datatype step = Step1 | Step2 | Step3

fun invoke ::
  "step \<Rightarrow> ('addr, 'tx, 'au) env \<Rightarrow> ('addr, 'tx, 'au) state \<Rightarrow>
   completion \<times> ('addr, 'tx, 'au) state" where
  "invoke Step1 env st = step1_CreateTransaction env st"
| "invoke Step2 env st = step2_SecondSignerSign env st"
| "invoke Step3 env st = step3_FirstSignerSubmit env st"

text \<open>A session: handlers invoked one after the other, each in its own environment.\<close>

fun run ::
  "(step \<times> ('addr, 'tx, 'au) env) list \<Rightarrow> ('addr, 'tx, 'au) state \<Rightarrow> ('addr, 'tx, 'au) state"
  where
  "run [] st = st"
| "run ((s, env) # rest) st = run rest (snd (invoke s env st))"

subsection \<open>How a handler ended\<close>

text \<open>
  The handlers return nothing, so how an invocation went is read off the source's
  control flow: it stopped at a guard before the \<^verbatim>\<open>try\<close> block, or it entered the block,
  which then ran to its end (the step succeeded), returned early, or threw.
\<close>

datatype ending = Guarded | Ended outcome

fun ending_of :: "step \<Rightarrow> ('addr, 'tx, 'au) env \<Rightarrow> ('addr, 'tx, 'au) state \<Rightarrow> ending" where
  "ending_of Step1 env st =
     (case account env of
        None \<Rightarrow> Guarded
      | Some addr \<Rightarrow> Ended (fst (step1_try env addr (clearLogs (setLoading True st)))))"
| "ending_of Step2 env st =
     (case account env of
        None \<Rightarrow> Guarded
      | Some addr \<Rightarrow>
          if serializedTransaction st = [] then Guarded
          else Ended (fst (step2_try env addr (setLoading True st))))"
| "ending_of Step3 env st =
     (case account env of
        None \<Rightarrow> Guarded
      | Some addr \<Rightarrow>
          if serializedTransaction st = [] \<or> secondSignerSignature st = [] then Guarded
          else Ended (fst (step3_try env addr (setLoading True st))))"

text \<open>
  The preconditions of section 4.1 of the specification: a connected account for every
  step, the transaction slot for Step 2, both slots for Step 3.
\<close>

fun precondition :: "step \<Rightarrow> ('addr, 'tx, 'au) env \<Rightarrow> ('addr, 'tx, 'au) state \<Rightarrow> bool" where
  "precondition Step1 env st = (account env \<noteq> None)"
| "precondition Step2 env st = (account env \<noteq> None \<and> serializedTransaction st \<noteq> [])"
| "precondition Step3 env st =
     (account env \<noteq> None \<and> serializedTransaction st \<noteq> [] \<and> secondSignerSignature st \<noteq> [])"

text \<open>The calls issued between an earlier state and a later one of the same session.\<close>

definition issued_since ::
  "('addr, 'tx, 'au) state \<Rightarrow> ('addr, 'tx, 'au) state \<Rightarrow> ('addr, 'tx, 'au) call list" where
  "issued_since st st' = drop (length (calls st)) (calls st')"

text \<open>
  A contract of the SDK that the component relies on: the hexadecimal text of a
  transaction is never the empty string.
\<close>

definition tx_hex_nonempty :: "('addr, 'tx, 'au) env \<Rightarrow> bool" where
  "tx_hex_nonempty env = (\<forall>t h. tx_bcsToHex env t = Inr h \<longrightarrow> h \<noteq> [])"

subsection \<open>A mock wallet and a mock SDK\<close>

text \<open>
  A test double in the sense of scenario D of the specification: addresses are their
  strings, transactions and authenticators are numbers, every call succeeds. The wallet
  signs with authenticator 1, whose hexadecimal text comes without the prefix.
\<close>

definition mock_hexToBytes :: "string \<Rightarrow> js_error + byte list" where
  "mock_hexToBytes s =
     (let digits = (if startsWith s ''0x'' then slice_from 2 s else s)
      in if digits = ''07'' then Inr [7]
         else if digits = ''08'' then Inr [8]
         else if digits = ''a1'' then Inr [161]
         else if digits = ''a2'' then Inr [162]
         else Inl (ErrorObject ''ParsingError'' ''Hex string is invalid''))"

definition mock_env :: "(string, nat, nat) env" where
  "mock_env =
     \<lparr>account = Some ''0xa11ce'',
      fetch = (\<lambda>url. Inr (Response (Inr [161, 28, 235, 11]))),
      prompt = (\<lambda>msg. Some ''0xb0b''),
      addressFrom = (\<lambda>s. Inr s),
      buildMultiAgent = (\<lambda>input. Inr 7),
      tx_bcsToHex = (\<lambda>t. Inr (if t = 7 then ''0x07'' else ''0x08'')),
      au_bcsToHex = (\<lambda>a. Inr (if a = 1 then ''a1'' else ''0xa2'')),
      hexToBytes = mock_hexToBytes,
      tx_deserialize = (\<lambda>b. if b = [7] then Inr 7 else if b = [8] then Inr 8
                             else Inl (ErrorObject ''Error'' ''bad transaction'')),
      au_deserialize = (\<lambda>b. if b = [161] then Inr 1 else if b = [162] then Inr 2
                             else Inl (ErrorObject ''Error'' ''bad authenticator'')),
      signTransaction = (\<lambda>t. Inr 1),
      submitTransaction = (\<lambda>t s rs. Inr ''0xf00d''),
      waitForTransaction = (\<lambda>h. Inr True),
      date_now = 5000,
      stamp = (\<lambda>n. ''12:00:00'')\<rparr>"

text \<open>
  The same wallet switched to the second signer, who signs with authenticator 2; the SDK
  on a later run, building transaction 8; an SDK that refuses to build; a wallet of the
  second signer that rejects the signing request with \<^verbatim>\<open>undefined\<close>; and a network that
  is down.
\<close>

definition mock_env2 :: "(string, nat, nat) env" where
  "mock_env2 = mock_env\<lparr>account := Some ''0xb0b'', signTransaction := (\<lambda>t. Inr 2)\<rparr>"

definition mock_env_later :: "(string, nat, nat) env" where
  "mock_env_later = mock_env\<lparr>buildMultiAgent := (\<lambda>input. Inr 8)\<rparr>"

definition mock_env_rejecting :: "(string, nat, nat) env" where
  "mock_env_rejecting =
     mock_env\<lparr>buildMultiAgent := (\<lambda>input. Inl (ErrorObject ''Error'' ''Account not found''))\<rparr>"

definition mock_env_undefined :: "(string, nat, nat) env" where
  "mock_env_undefined =
     mock_env\<lparr>account := Some ''0xb0b'', signTransaction := (\<lambda>t. Inl ThrownUndefined)\<rparr>"

definition mock_env_offline :: "(string, nat, nat) env" where
  "mock_env_offline =
     mock_env\<lparr>fetch := (\<lambda>url. Inl (ErrorObject ''TypeError'' ''Failed to fetch''))\<rparr>"

section \<open>Properties\<close>

subsection \<open>Auxiliary facts\<close>

lemmas state_ops = log_def issue_def clearLogs_def setLoading_def
  console_error_def setSerializedTransaction_def setSecondSignerSignature_def
  setSecondSignerAddress_def

text \<open>What each state operation changes and what it leaves alone.\<close>

lemma log_frame [simp]:
  "serializedTransaction (log env m st) = serializedTransaction st"
  "secondSignerSignature (log env m st) = secondSignerSignature st"
  "secondSignerAddress (log env m st) = secondSignerAddress st"
  "calls (log env m st) = calls st"
  "loading (log env m st) = loading st"
  "logs (log env m st) = logs st @ [log_entry env (logged st) m]"
  "console (log env m st) = console st @ [m]"
  "logged (log env m st) = Suc (logged st)"
  by (simp_all add: state_ops)

lemma issue_frame [simp]:
  "serializedTransaction (issue c st) = serializedTransaction st"
  "secondSignerSignature (issue c st) = secondSignerSignature st"
  "secondSignerAddress (issue c st) = secondSignerAddress st"
  "calls (issue c st) = calls st @ [c]"
  "loading (issue c st) = loading st"
  "logs (issue c st) = logs st"
  "console (issue c st) = console st"
  "logged (issue c st) = logged st"
  by (simp_all add: state_ops)

lemma setLoading_frame [simp]:
  "serializedTransaction (setLoading b st) = serializedTransaction st"
  "secondSignerSignature (setLoading b st) = secondSignerSignature st"
  "secondSignerAddress (setLoading b st) = secondSignerAddress st"
  "calls (setLoading b st) = calls st"
  "loading (setLoading b st) = b"
  "logs (setLoading b st) = logs st"
  "console (setLoading b st) = console st"
  "logged (setLoading b st) = logged st"
  by (simp_all add: state_ops)

lemma clearLogs_frame [simp]:
  "serializedTransaction (clearLogs st) = serializedTransaction st"
  "secondSignerSignature (clearLogs st) = secondSignerSignature st"
  "secondSignerAddress (clearLogs st) = secondSignerAddress st"
  "calls (clearLogs st) = calls st"
  "loading (clearLogs st) = loading st"
  "logs (clearLogs st) = []"
  "console (clearLogs st) = console st"
  "logged (clearLogs st) = logged st"
  by (simp_all add: state_ops)

lemma console_error_frame [simp]:
  "serializedTransaction (console_error e st) = serializedTransaction st"
  "secondSignerSignature (console_error e st) = secondSignerSignature st"
  "secondSignerAddress (console_error e st) = secondSignerAddress st"
  "calls (console_error e st) = calls st"
  "loading (console_error e st) = loading st"
  "logs (console_error e st) = logs st"
  "console (console_error e st) = console st @ [''Full error: '' @ error_string e]"
  "logged (console_error e st) = logged st"
  by (simp_all add: state_ops)

lemma setSerializedTransaction_frame [simp]:
  "serializedTransaction (setSerializedTransaction v st) = v"
  "secondSignerSignature (setSerializedTransaction v st) = secondSignerSignature st"
  "secondSignerAddress (setSerializedTransaction v st) = secondSignerAddress st"
  "calls (setSerializedTransaction v st) = calls st"
  "loading (setSerializedTransaction v st) = loading st"
  "logs (setSerializedTransaction v st) = logs st"
  "console (setSerializedTransaction v st) = console st"
  "logged (setSerializedTransaction v st) = logged st"
  by (simp_all add: state_ops)

lemma setSecondSignerSignature_frame [simp]:
  "serializedTransaction (setSecondSignerSignature v st) = serializedTransaction st"
  "secondSignerSignature (setSecondSignerSignature v st) = v"
  "secondSignerAddress (setSecondSignerSignature v st) = secondSignerAddress st"
  "calls (setSecondSignerSignature v st) = calls st"
  "loading (setSecondSignerSignature v st) = loading st"
  "logs (setSecondSignerSignature v st) = logs st"
  "console (setSecondSignerSignature v st) = console st"
  "logged (setSecondSignerSignature v st) = logged st"
  by (simp_all add: state_ops)

lemma setSecondSignerAddress_frame [simp]:
  "serializedTransaction (setSecondSignerAddress v st) = serializedTransaction st"
  "secondSignerSignature (setSecondSignerAddress v st) = secondSignerSignature st"
  "secondSignerAddress (setSecondSignerAddress v st) = v"
  "calls (setSecondSignerAddress v st) = calls st"
  "loading (setSecondSignerAddress v st) = loading st"
  "logs (setSecondSignerAddress v st) = logs st"
  "console (setSecondSignerAddress v st) = console st"
  "logged (setSecondSignerAddress v st) = logged st"
  by (simp_all add: state_ops)

text \<open>
  The \<^verbatim>\<open>try\<close> blocks and the two relay slots: Step 1 never writes the authenticator
  slot and writes the transaction slot only when it runs to its end; Step 2 never writes
  the transaction slot and writes the authenticator slot only when it runs to its end;
  Step 3 writes neither.
\<close>

lemma step1_try_frame:
  "secondSignerSignature (snd (step1_try env a s)) = secondSignerSignature s"
  "fst (step1_try env a s) = Completed \<or>
     serializedTransaction (snd (step1_try env a s)) = serializedTransaction s"
  by (simp_all add: step1_try_def loadScript_def Let_def
      split: sum.splits option.splits prod.splits)

lemma step2_try_frame:
  "serializedTransaction (snd (step2_try env a s)) = serializedTransaction s"
  "fst (step2_try env a s) = Completed \<or>
     secondSignerSignature (snd (step2_try env a s)) = secondSignerSignature s"
  by (simp_all add: step2_try_def Let_def
      split: sum.splits option.splits prod.splits)

lemma step3_try_frame:
  "serializedTransaction (snd (step3_try env a s)) = serializedTransaction s"
  "secondSignerSignature (snd (step3_try env a s)) = secondSignerSignature s"
  by (simp_all add: step3_try_def Let_def
      split: sum.splits option.splits prod.splits)

text \<open>Strings: a prefix is a substring, and a log entry contains what its message starts with.\<close>

lemma startsWith_append [simp]: "startsWith (p @ ys) p"
  by (simp add: startsWith_def)

lemma includes_str_here: "startsWith s p \<Longrightarrow> includes_str s p"
  by (cases s) (auto simp: startsWith_def)

lemma includes_str_append: "includes_str s p \<Longrightarrow> includes_str (xs @ s) p"
  by (induction xs) auto

lemma log_entry_includes: "startsWith msg p \<Longrightarrow> includes_str (log_entry env t msg) p"
proof -
  assume "startsWith msg p"
  then have "includes_str msg p" by (rule includes_str_here)
  then have "includes_str ((''['' @ stamp env t @ ''] '') @ msg) p"
    by (rule includes_str_append)
  then show ?thesis by (simp add: log_entry_def)
qed

text \<open>The handlers through their \<^verbatim>\<open>try\<close> blocks.\<close>

lemma handler_result:
  "try_catch_finally body (catch_block env) (setLoading False) s0 =
     (case body s0 of
        (Threw e, sb) \<Rightarrow>
          (case error_text e of
             Inl type_error \<Rightarrow> (Rejected type_error, setLoading False sb)
           | Inr text \<Rightarrow>
               (Resolved, setLoading False (console_error e (log env (''ERROR: '' @ text) sb))))
      | (Completed, sb) \<Rightarrow> (Resolved, setLoading False sb)
      | (ReturnedEarly, sb) \<Rightarrow> (Resolved, setLoading False sb))"
  by (simp add: try_catch_finally_def catch_block_def
      split: prod.splits outcome.splits sum.splits)

lemma handler_slots:
  "serializedTransaction (snd (try_catch_finally body (catch_block env) (setLoading False) s0))
     = serializedTransaction (snd (body s0))"
  "secondSignerSignature (snd (try_catch_finally body (catch_block env) (setLoading False) s0))
     = secondSignerSignature (snd (body s0))"
  "secondSignerAddress (snd (try_catch_finally body (catch_block env) (setLoading False) s0))
     = secondSignerAddress (snd (body s0))"
  "calls (snd (try_catch_finally body (catch_block env) (setLoading False) s0))
     = calls (snd (body s0))"
  by (simp_all add: handler_result split: prod.splits outcome.splits sum.splits)

lemma handler_caught:
  assumes "fst (body s0) = Threw e" and "error_text e = Inr text"
  shows "fst (try_catch_finally body (catch_block env) (setLoading False) s0) = Resolved"
    and "logs (snd (try_catch_finally body (catch_block env) (setLoading False) s0))
           = logs (snd (body s0)) @ [log_entry env (logged (snd (body s0))) (''ERROR: '' @ text)]"
  using assms by (cases "body s0"; simp add: handler_result)+

lemma handler_escaped:
  assumes "fst (body s0) = Threw e" and "error_text e = Inl type_error"
  shows "fst (try_catch_finally body (catch_block env) (setLoading False) s0)
           = Rejected type_error"
    and "logs (snd (try_catch_finally body (catch_block env) (setLoading False) s0))
           = logs (snd (body s0))"
  using assms by (cases "body s0"; simp add: handler_result)+

lemma handler_not_thrown:
  assumes "\<forall>e. fst (body s0) \<noteq> Threw e"
  shows "fst (try_catch_finally body (catch_block env) (setLoading False) s0) = Resolved"
  using assms by (cases "body s0") (simp add: handler_result split: outcome.splits)

text \<open>The fields of the mocks, so that a run can be evaluated without unfolding them.\<close>

lemma mock_env_fields [simp]:
  "account mock_env = Some ''0xa11ce''"
  "fetch mock_env url = Inr (Response (Inr [161, 28, 235, 11]))"
  "prompt mock_env msg = Some ''0xb0b''"
  "addressFrom mock_env str = Inr str"
  "buildMultiAgent mock_env input = Inr 7"
  "tx_bcsToHex mock_env t = Inr (if t = 7 then ''0x07'' else ''0x08'')"
  "au_bcsToHex mock_env a = Inr (if a = 1 then ''a1'' else ''0xa2'')"
  "hexToBytes mock_env = mock_hexToBytes"
  "tx_deserialize mock_env b =
     (if b = [7] then Inr 7 else if b = [8] then Inr 8
      else Inl (ErrorObject ''Error'' ''bad transaction''))"
  "au_deserialize mock_env b =
     (if b = [161] then Inr 1 else if b = [162] then Inr 2
      else Inl (ErrorObject ''Error'' ''bad authenticator''))"
  "signTransaction mock_env t = Inr 1"
  "submitTransaction mock_env t sa rs = Inr ''0xf00d''"
  "waitForTransaction mock_env h = Inr True"
  "date_now mock_env = 5000"
  "stamp mock_env n = ''12:00:00''"
  by (simp_all add: mock_env_def)

lemma mock_env2_fields [simp]:
  "account mock_env2 = Some ''0xb0b''"
  "fetch mock_env2 = fetch mock_env"
  "prompt mock_env2 = prompt mock_env"
  "addressFrom mock_env2 = addressFrom mock_env"
  "buildMultiAgent mock_env2 = buildMultiAgent mock_env"
  "tx_bcsToHex mock_env2 = tx_bcsToHex mock_env"
  "au_bcsToHex mock_env2 = au_bcsToHex mock_env"
  "hexToBytes mock_env2 = hexToBytes mock_env"
  "tx_deserialize mock_env2 = tx_deserialize mock_env"
  "au_deserialize mock_env2 = au_deserialize mock_env"
  "signTransaction mock_env2 = (\<lambda>t. Inr 2)"
  "submitTransaction mock_env2 = submitTransaction mock_env"
  "waitForTransaction mock_env2 = waitForTransaction mock_env"
  "date_now mock_env2 = date_now mock_env"
  "stamp mock_env2 = stamp mock_env"
  by (simp_all add: mock_env2_def)

lemma mock_env_undefined_fields [simp]:
  "account mock_env_undefined = Some ''0xb0b''"
  "fetch mock_env_undefined = fetch mock_env"
  "prompt mock_env_undefined = prompt mock_env"
  "addressFrom mock_env_undefined = addressFrom mock_env"
  "buildMultiAgent mock_env_undefined = buildMultiAgent mock_env"
  "tx_bcsToHex mock_env_undefined = tx_bcsToHex mock_env"
  "au_bcsToHex mock_env_undefined = au_bcsToHex mock_env"
  "hexToBytes mock_env_undefined = hexToBytes mock_env"
  "tx_deserialize mock_env_undefined = tx_deserialize mock_env"
  "au_deserialize mock_env_undefined = au_deserialize mock_env"
  "signTransaction mock_env_undefined = (\<lambda>t. Inl ThrownUndefined)"
  "submitTransaction mock_env_undefined = submitTransaction mock_env"
  "waitForTransaction mock_env_undefined = waitForTransaction mock_env"
  "date_now mock_env_undefined = date_now mock_env"
  "stamp mock_env_undefined = stamp mock_env"
  by (simp_all add: mock_env_undefined_def)

lemma mock_env_later_fields [simp]:
  "account mock_env_later = account mock_env"
  "fetch mock_env_later = fetch mock_env"
  "prompt mock_env_later = prompt mock_env"
  "addressFrom mock_env_later = addressFrom mock_env"
  "buildMultiAgent mock_env_later = (\<lambda>input. Inr 8)"
  "tx_bcsToHex mock_env_later = tx_bcsToHex mock_env"
  "au_bcsToHex mock_env_later = au_bcsToHex mock_env"
  "hexToBytes mock_env_later = hexToBytes mock_env"
  "tx_deserialize mock_env_later = tx_deserialize mock_env"
  "au_deserialize mock_env_later = au_deserialize mock_env"
  "signTransaction mock_env_later = signTransaction mock_env"
  "submitTransaction mock_env_later = submitTransaction mock_env"
  "waitForTransaction mock_env_later = waitForTransaction mock_env"
  "date_now mock_env_later = date_now mock_env"
  "stamp mock_env_later = stamp mock_env"
  by (simp_all add: mock_env_later_def)

lemma mock_env_rejecting_fields [simp]:
  "account mock_env_rejecting = account mock_env"
  "fetch mock_env_rejecting = fetch mock_env"
  "prompt mock_env_rejecting = prompt mock_env"
  "addressFrom mock_env_rejecting = addressFrom mock_env"
  "buildMultiAgent mock_env_rejecting = (\<lambda>input. Inl (ErrorObject ''Error'' ''Account not found''))"
  "tx_bcsToHex mock_env_rejecting = tx_bcsToHex mock_env"
  "au_bcsToHex mock_env_rejecting = au_bcsToHex mock_env"
  "hexToBytes mock_env_rejecting = hexToBytes mock_env"
  "tx_deserialize mock_env_rejecting = tx_deserialize mock_env"
  "au_deserialize mock_env_rejecting = au_deserialize mock_env"
  "signTransaction mock_env_rejecting = signTransaction mock_env"
  "submitTransaction mock_env_rejecting = submitTransaction mock_env"
  "waitForTransaction mock_env_rejecting = waitForTransaction mock_env"
  "date_now mock_env_rejecting = date_now mock_env"
  "stamp mock_env_rejecting = stamp mock_env"
  by (simp_all add: mock_env_rejecting_def)

lemma mock_env_offline_fields [simp]:
  "account mock_env_offline = account mock_env"
  "fetch mock_env_offline = (\<lambda>url. Inl (ErrorObject ''TypeError'' ''Failed to fetch''))"
  "prompt mock_env_offline = prompt mock_env"
  "addressFrom mock_env_offline = addressFrom mock_env"
  "buildMultiAgent mock_env_offline = buildMultiAgent mock_env"
  "tx_bcsToHex mock_env_offline = tx_bcsToHex mock_env"
  "au_bcsToHex mock_env_offline = au_bcsToHex mock_env"
  "hexToBytes mock_env_offline = hexToBytes mock_env"
  "tx_deserialize mock_env_offline = tx_deserialize mock_env"
  "au_deserialize mock_env_offline = au_deserialize mock_env"
  "signTransaction mock_env_offline = signTransaction mock_env"
  "submitTransaction mock_env_offline = submitTransaction mock_env"
  "waitForTransaction mock_env_offline = waitForTransaction mock_env"
  "date_now mock_env_offline = date_now mock_env"
  "stamp mock_env_offline = stamp mock_env"
  by (simp_all add: mock_env_offline_def)

lemma mock_hexToBytes_values [simp]:
  "mock_hexToBytes ''0x07'' = Inr [7]"
  "mock_hexToBytes ''0x08'' = Inr [8]"
  "mock_hexToBytes ''a1'' = Inr [161]"
  "mock_hexToBytes ''a2'' = Inr [162]"
  by (simp_all add: mock_hexToBytes_def startsWith_def slice_from_def)

lemma initial_state_fields [simp]:
  "logs initial_state = []"
  "loading initial_state = False"
  "serializedTransaction initial_state = []"
  "secondSignerSignature initial_state = []"
  "secondSignerAddress initial_state = []"
  "calls initial_state = []"
  "logged initial_state = 0"
  by (simp_all add: initial_state_def)

text \<open>Unfolding the handlers, for evaluating them on a concrete input.\<close>

lemmas handler_defs = step1_CreateTransaction_def step2_SecondSignerSign_def
  step3_FirstSignerSubmit_def step1_try_def step2_try_def step3_try_def loadScript_def
  try_catch_finally_def catch_block_def error_text_def with_0x_def without_0x_def
  startsWith_def slice_from_def substring0_def issued_since_def Let_def

subsection \<open>Guards\<close>

text \<open>
  Claim C1. When a step is invoked while its precondition is unmet (no connected account,
  or for Step 2 an empty transaction slot, or for Step 3 an empty transaction or
  authenticator slot), the handler returns normally, both relay slots keep their values,
  no call to the network, the operator, the wallet or the SDK is issued, and exactly one
  entry is appended to the log, which contains the marker ERROR.
\<close>

theorem guard_only_logs_error:
  assumes "\<not> precondition s env st"
  shows "fst (invoke s env st) = Resolved
       \<and> serializedTransaction (snd (invoke s env st)) = serializedTransaction st
       \<and> secondSignerSignature (snd (invoke s env st)) = secondSignerSignature st
       \<and> calls (snd (invoke s env st)) = calls st
       \<and> (\<exists>entry. logs (snd (invoke s env st)) = logs st @ [entry]
                  \<and> includes_str entry ''ERROR'')
       \<and> (\<exists>msg. startsWith msg ''ERROR'' \<and> snd (invoke s env st) = log env msg st)"
proof -
  have "\<exists>msg. startsWith msg ''ERROR'' \<and> invoke s env st = (Resolved, log env msg st)"
  proof (cases s)
    case Step1
    with assms have "invoke s env st = (Resolved, log env ''ERROR: No account connected'' st)"
      by (simp add: step1_CreateTransaction_def)
    moreover have "startsWith ''ERROR: No account connected'' ''ERROR''"
      by (simp add: startsWith_def)
    ultimately show ?thesis by blast
  next
    case Step2
    show ?thesis
    proof (cases "account env")
      case None
      with Step2 have "invoke s env st = (Resolved, log env ''ERROR: No account connected'' st)"
        by (simp add: step2_SecondSignerSign_def)
      moreover have "startsWith ''ERROR: No account connected'' ''ERROR''"
        by (simp add: startsWith_def)
      ultimately show ?thesis by blast
    next
      case (Some a)
      with Step2 assms have "invoke s env st
          = (Resolved, log env ''ERROR: No transaction to sign. Run Step 1 first.'' st)"
        by (simp add: step2_SecondSignerSign_def)
      moreover have "startsWith ''ERROR: No transaction to sign. Run Step 1 first.'' ''ERROR''"
        by (simp add: startsWith_def)
      ultimately show ?thesis by blast
    qed
  next
    case Step3
    show ?thesis
    proof (cases "account env")
      case None
      with Step3 have "invoke s env st = (Resolved, log env ''ERROR: No account connected'' st)"
        by (simp add: step3_FirstSignerSubmit_def)
      moreover have "startsWith ''ERROR: No account connected'' ''ERROR''"
        by (simp add: startsWith_def)
      ultimately show ?thesis by blast
    next
      case (Some a)
      with Step3 assms have "invoke s env st
          = (Resolved, log env ''ERROR: Missing transaction or second signer signature. Complete Steps 1 and 2 first.'' st)"
        by (auto simp: step3_FirstSignerSubmit_def)
      moreover have "startsWith ''ERROR: Missing transaction or second signer signature. Complete Steps 1 and 2 first.'' ''ERROR''"
        by (simp add: startsWith_def)
      ultimately show ?thesis by blast
    qed
  qed
  then obtain msg where msg: "startsWith msg ''ERROR''"
    and result: "invoke s env st = (Resolved, log env msg st)"
    by blast
  have "includes_str (log_entry env (logged st) msg) ''ERROR''"
    using msg by (rule log_entry_includes)
  with msg show ?thesis unfolding result by auto
qed

theorem guard_only_logs_error_witness:
  "\<not> precondition Step2 mock_env initial_state
   \<and> logs (snd (invoke Step2 mock_env initial_state))
       = [''[12:00:00] ERROR: No transaction to sign. Run Step 1 first.'']
   \<and> fst (invoke Step2 mock_env initial_state) = Resolved
   \<and> serializedTransaction (snd (invoke Step2 mock_env initial_state)) = []
   \<and> secondSignerSignature (snd (invoke Step2 mock_env initial_state)) = []
   \<and> calls (snd (invoke Step2 mock_env initial_state)) = []"
proof -
  have unmet: "\<not> precondition Step2 mock_env (initial_state :: (string, nat, nat) state)"
    by simp
  have entry: "logs (snd (invoke Step2 mock_env initial_state))
       = [''[12:00:00] ERROR: No transaction to sign. Run Step 1 first.'']"
    by (simp add: handler_defs log_entry_def)
  from guard_only_logs_error [OF unmet] unmet entry show ?thesis
    by simp
qed

subsection \<open>Failures\<close>

text \<open>
  What the \<^verbatim>\<open>catch\<close> block does with a thrown value whose text it can form, that is
  with every Error object and every string: the handler returns normally, the last entry
  of the log is the ERROR entry with that text, and both relay slots hold what they held
  before the invocation. An invocation whose \<^verbatim>\<open>try\<close> block does not throw returns
  normally as well.
\<close>

lemma failures_with_text_are_swallowed:
  assumes thrown: "ending_of s env st = Ended (Threw e)"
    and readable: "error_text e = Inr text"
  shows "fst (invoke s env st) = Resolved"
    and "\<exists>earlier n. logs (snd (invoke s env st))
                       = earlier @ [log_entry env n (''ERROR: '' @ text)]"
    and "includes_str (last (logs (snd (invoke s env st)))) ''ERROR''"
proof -
  have entry: "includes_str (log_entry env n (''ERROR: '' @ text)) ''ERROR''" for n
    by (rule log_entry_includes) (simp add: startsWith_def)
  show "fst (invoke s env st) = Resolved"
    using thrown readable
    by (cases s)
       (auto simp: step1_CreateTransaction_def step2_SecondSignerSign_def
          step3_FirstSignerSubmit_def handler_caught split: option.splits if_splits)
  show "\<exists>earlier n. logs (snd (invoke s env st))
                       = earlier @ [log_entry env n (''ERROR: '' @ text)]"
    using thrown readable
    by (cases s)
       (auto simp: step1_CreateTransaction_def step2_SecondSignerSign_def
          step3_FirstSignerSubmit_def handler_caught split: option.splits if_splits)
  show "includes_str (last (logs (snd (invoke s env st)))) ''ERROR''"
    using thrown readable entry
    by (cases s)
       (auto simp: step1_CreateTransaction_def step2_SecondSignerSign_def
          step3_FirstSignerSubmit_def handler_caught split: option.splits if_splits)
qed

lemma failure_keeps_slots:
  assumes thrown: "ending_of s env st = Ended (Threw e)"
  shows "serializedTransaction (snd (invoke s env st)) = serializedTransaction st"
    and "secondSignerSignature (snd (invoke s env st)) = secondSignerSignature st"
proof -
  show "serializedTransaction (snd (invoke s env st)) = serializedTransaction st"
  proof (cases s)
    case Step1
    with thrown obtain a where a: "account env = Some a"
      and t: "fst (step1_try env a (clearLogs (setLoading True st))) = Threw e"
      by (auto split: option.splits)
    from t step1_try_frame(2) [of env a "clearLogs (setLoading True st)"]
    show ?thesis using Step1 a by (simp add: step1_CreateTransaction_def handler_slots)
  next
    case Step2
    with thrown show ?thesis
      by (auto simp: step2_SecondSignerSign_def handler_slots step2_try_frame
          split: option.splits if_splits)
  next
    case Step3
    with thrown show ?thesis
      by (auto simp: step3_FirstSignerSubmit_def handler_slots step3_try_frame
          split: option.splits if_splits)
  qed
  show "secondSignerSignature (snd (invoke s env st)) = secondSignerSignature st"
  proof (cases s)
    case Step1
    with thrown show ?thesis
      by (auto simp: step1_CreateTransaction_def handler_slots step1_try_frame
          split: option.splits if_splits)
  next
    case Step2
    with thrown obtain a where a: "account env = Some a"
      and ne: "serializedTransaction st \<noteq> []"
      and t: "fst (step2_try env a (setLoading True st)) = Threw e"
      by (auto split: option.splits if_splits)
    from t step2_try_frame(2) [of env a "setLoading True st"]
    show ?thesis using Step2 a ne by (simp add: step2_SecondSignerSign_def handler_slots)
  next
    case Step3
    with thrown show ?thesis
      by (auto simp: step3_FirstSignerSubmit_def handler_slots step3_try_frame
          split: option.splits if_splits)
  qed
qed

lemma no_failure_resolves:
  assumes "\<forall>e. ending_of s env st \<noteq> Ended (Threw e)"
  shows "fst (invoke s env st) = Resolved"
proof (cases s)
  case Step1
  with assms show ?thesis
    by (auto simp: step1_CreateTransaction_def intro!: handler_not_thrown split: option.splits)
next
  case Step2
  with assms show ?thesis
    by (auto simp: step2_SecondSignerSign_def intro!: handler_not_thrown
        split: option.splits if_splits)
next
  case Step3
  with assms show ?thesis
    by (auto simp: step3_FirstSignerSubmit_def intro!: handler_not_thrown
        split: option.splits if_splits)
qed

text \<open>
  The network is down while a transaction and an authenticator are in the store:
  Step 1 ends with the fetch error in the log and the store as it was.
\<close>

lemma fetch_failure_is_swallowed:
  "ending_of Step1 mock_env_offline
      (initial_state\<lparr>serializedTransaction := ''0x07'', secondSignerSignature := ''0xa1''\<rparr>)
     = Ended (Threw (ErrorObject ''TypeError'' ''Failed to fetch''))
   \<and> logs (snd (invoke Step1 mock_env_offline
      (initial_state\<lparr>serializedTransaction := ''0x07'', secondSignerSignature := ''0xa1''\<rparr>)))
     = [''[12:00:00] === STEP 1: Create Transaction (First Sender) ==='',
        ''[12:00:00] First sender (you): 0xa11ce'',
        ''[12:00:00] Loading transfer_two_by_two.mv script...'',
        ''[12:00:00] ERROR: Failed to fetch'']
   \<and> console (snd (invoke Step1 mock_env_offline
      (initial_state\<lparr>serializedTransaction := ''0x07'', secondSignerSignature := ''0xa1''\<rparr>)))
     = [''=== STEP 1: Create Transaction (First Sender) ==='',
        ''First sender (you): 0xa11ce'',
        ''Loading transfer_two_by_two.mv script...'',
        ''ERROR: Failed to fetch'',
        ''Full error: TypeError: Failed to fetch'']
   \<and> fst (invoke Step1 mock_env_offline
      (initial_state\<lparr>serializedTransaction := ''0x07'', secondSignerSignature := ''0xa1''\<rparr>))
     = Resolved
   \<and> serializedTransaction (snd (invoke Step1 mock_env_offline
      (initial_state\<lparr>serializedTransaction := ''0x07'', secondSignerSignature := ''0xa1''\<rparr>)))
     = ''0x07''
   \<and> secondSignerSignature (snd (invoke Step1 mock_env_offline
      (initial_state\<lparr>serializedTransaction := ''0x07'', secondSignerSignature := ''0xa1''\<rparr>)))
     = ''0xa1''"
proof -
  let ?st = "initial_state\<lparr>serializedTransaction := ''0x07'', secondSignerSignature := ''0xa1''\<rparr>
               :: (string, nat, nat) state"
  have thrown: "ending_of Step1 mock_env_offline ?st
                  = Ended (Threw (ErrorObject ''TypeError'' ''Failed to fetch''))"
    by (simp add: handler_defs)
  have readable: "error_text (ErrorObject ''TypeError'' ''Failed to fetch'') = Inr ''Failed to fetch''"
    by (simp add: error_text_def)
  have entries: "logs (snd (invoke Step1 mock_env_offline ?st))
     = [''[12:00:00] === STEP 1: Create Transaction (First Sender) ==='',
        ''[12:00:00] First sender (you): 0xa11ce'',
        ''[12:00:00] Loading transfer_two_by_two.mv script...'',
        ''[12:00:00] ERROR: Failed to fetch'']"
    by (simp add: handler_defs log_entry_def)
  have lines: "console (snd (invoke Step1 mock_env_offline ?st))
     = [''=== STEP 1: Create Transaction (First Sender) ==='',
        ''First sender (you): 0xa11ce'',
        ''Loading transfer_two_by_two.mv script...'',
        ''ERROR: Failed to fetch'',
        ''Full error: TypeError: Failed to fetch'']"
    by (simp add: handler_defs initial_state_def)
  from failures_with_text_are_swallowed(1) [OF thrown readable] failure_keeps_slots [OF thrown]
  have "fst (invoke Step1 mock_env_offline ?st) = Resolved
      \<and> serializedTransaction (snd (invoke Step1 mock_env_offline ?st)) = serializedTransaction ?st
      \<and> secondSignerSignature (snd (invoke Step1 mock_env_offline ?st)) = secondSignerSignature ?st"
    by blast
  with thrown entries lines show ?thesis by simp
qed

text \<open>
  Claim C2, where the code departs from it. The claim holds for every thrown value but
  two: when a collaborator rejects with \<^verbatim>\<open>undefined\<close> or \<^verbatim>\<open>null\<close>, the \<^verbatim>\<open>catch\<close> block
  itself throws a TypeError while reading \<^verbatim>\<open>error.message\<close>, before it has logged
  anything. Here the second signer's wallet rejects the signing request of Step 2 with
  \<^verbatim>\<open>undefined\<close>: the handler's promise is rejected with the TypeError, the log ends with
  the request for the signature and holds no ERROR entry of this run; \<^verbatim>\<open>finally\<close> has
  run and the relay slots are as before.
\<close>

theorem undefined_rejection_escapes:
  "ending_of Step2 mock_env_undefined (run [(Step1, mock_env)] initial_state)
     = Ended (Threw ThrownUndefined)
   \<and> fst (invoke Step2 mock_env_undefined (run [(Step1, mock_env)] initial_state))
       = Rejected (ErrorObject ''TypeError''
                    ''Cannot read properties of undefined (reading 'message')'')
   \<and> logs (snd (invoke Step2 mock_env_undefined (run [(Step1, mock_env)] initial_state)))
       = logs (run [(Step1, mock_env)] initial_state)
         @ [''[12:00:00] === STEP 2: Second Sender Signs ==='',
            ''[12:00:00] Current wallet: 0xb0b'',
            ''[12:00:00] Transaction deserialized'',
            ''[12:00:00] Requesting wallet signature...'']
   \<and> loading (snd (invoke Step2 mock_env_undefined (run [(Step1, mock_env)] initial_state)))
       = False
   \<and> serializedTransaction
        (snd (invoke Step2 mock_env_undefined (run [(Step1, mock_env)] initial_state)))
       = ''0x07''
   \<and> secondSignerSignature
        (snd (invoke Step2 mock_env_undefined (run [(Step1, mock_env)] initial_state)))
       = []"
proof -
  define A :: "(string, nat, nat) state" where "A = snd (invoke Step1 mock_env initial_state)"
  have run: "run [(Step1, mock_env)] initial_state = A" by (simp add: A_def)
  have A: "serializedTransaction A = ''0x07''" "secondSignerSignature A = []"
    unfolding A_def by (simp_all add: handler_defs)
  have thrown: "ending_of Step2 mock_env_undefined A = Ended (Threw ThrownUndefined)"
    using A by (simp add: handler_defs)
  have rejected: "fst (invoke Step2 mock_env_undefined A)
       = Rejected (ErrorObject ''TypeError''
                    ''Cannot read properties of undefined (reading 'message')'')"
    using A by (simp add: handler_defs)
  have entries: "logs (snd (invoke Step2 mock_env_undefined A))
       = logs A
         @ [''[12:00:00] === STEP 2: Second Sender Signs ==='',
            ''[12:00:00] Current wallet: 0xb0b'',
            ''[12:00:00] Transaction deserialized'',
            ''[12:00:00] Requesting wallet signature...'']"
    using A by (simp add: handler_defs log_entry_def)
  have finally_ran: "loading (snd (invoke Step2 mock_env_undefined A)) = False"
    using A by (simp add: handler_defs)
  from failure_keeps_slots [OF thrown] A
  have slots: "serializedTransaction (snd (invoke Step2 mock_env_undefined A)) = ''0x07''"
    "secondSignerSignature (snd (invoke Step2 mock_env_undefined A)) = []"
    by simp_all
  from thrown rejected entries finally_ran slots show ?thesis
    unfolding run by (intro conjI)
qed

subsection \<open>Running Step 1 again\<close>

text \<open>What a completed Step 1 has done: three calls, and the transaction slot written.\<close>

lemma step1_try_completed:
  "fst (step1_try env a s) \<noteq> Completed \<or>
   (\<exists>input t. calls (snd (step1_try env a s))
        = calls s @ [Fetch ''/transfer_two_by_two.mv'',
                     Prompt ''Enter second signer address (0x...):'', BuildMultiAgent input]
      \<and> buildMultiAgent env input = Inr t
      \<and> tx_bcsToHex env t = Inr (serializedTransaction (snd (step1_try env a s))))"
  by (simp add: step1_try_def loadScript_def Let_def
      split: sum.splits option.splits prod.splits)

lemma step1_keeps_authenticator:
  "secondSignerSignature (snd (invoke Step1 env st)) = secondSignerSignature st"
  by (simp add: step1_CreateTransaction_def handler_slots step1_try_frame split: option.splits)

text \<open>
  Claim C3, as the code has it. Step 1 never writes the authenticator slot, on any path;
  when it succeeds, the transaction slot holds the hexadecimal text of the transaction the
  SDK has just built. So Step 1 run again replaces the transaction and keeps the
  authenticator of an earlier Step 2 in the store, where Step 3 finds it.
\<close>

theorem step1_overwrites_transaction_only:
  "secondSignerSignature (snd (invoke Step1 env st)) = secondSignerSignature st
   \<and> (ending_of Step1 env st = Ended Completed \<longrightarrow>
       (\<exists>input t. BuildMultiAgent input \<in> set (issued_since st (snd (invoke Step1 env st)))
             \<and> buildMultiAgent env input = Inr t
             \<and> tx_bcsToHex env t = Inr (serializedTransaction (snd (invoke Step1 env st)))))"
proof (intro conjI impI)
  show "secondSignerSignature (snd (invoke Step1 env st)) = secondSignerSignature st"
    by (rule step1_keeps_authenticator)
next
  assume "ending_of Step1 env st = Ended Completed"
  then obtain a where a: "account env = Some a"
    and c: "fst (step1_try env a (clearLogs (setLoading True st))) = Completed"
    by (auto split: option.splits)
  from c step1_try_completed [of env a "clearLogs (setLoading True st)"]
  obtain input t where
    "calls (snd (step1_try env a (clearLogs (setLoading True st))))
        = calls st @ [Fetch ''/transfer_two_by_two.mv'',
                     Prompt ''Enter second signer address (0x...):'', BuildMultiAgent input]"
    and "buildMultiAgent env input = Inr t"
    and "tx_bcsToHex env t
           = Inr (serializedTransaction (snd (step1_try env a (clearLogs (setLoading True st)))))"
    by auto
  with a show "\<exists>input t. BuildMultiAgent input \<in> set (issued_since st (snd (invoke Step1 env st)))
             \<and> buildMultiAgent env input = Inr t
             \<and> tx_bcsToHex env t = Inr (serializedTransaction (snd (invoke Step1 env st)))"
    by (auto simp: step1_CreateTransaction_def handler_slots issued_since_def)
qed

theorem step1_overwrites_transaction_only_witness:
  "ending_of Step1 mock_env_later
      (initial_state\<lparr>serializedTransaction := ''0x07'', secondSignerSignature := ''0xa2''\<rparr>)
     = Ended Completed
   \<and> secondSignerSignature (snd (invoke Step1 mock_env_later
        (initial_state\<lparr>serializedTransaction := ''0x07'', secondSignerSignature := ''0xa2''\<rparr>)))
     = ''0xa2''
   \<and> serializedTransaction (snd (invoke Step1 mock_env_later
        (initial_state\<lparr>serializedTransaction := ''0x07'', secondSignerSignature := ''0xa2''\<rparr>)))
     = ''0x08''
   \<and> (\<exists>input t. BuildMultiAgent input \<in> set (issued_since
          (initial_state\<lparr>serializedTransaction := ''0x07'', secondSignerSignature := ''0xa2''\<rparr>)
          (snd (invoke Step1 mock_env_later
          (initial_state\<lparr>serializedTransaction := ''0x07'', secondSignerSignature := ''0xa2''\<rparr>))))
        \<and> buildMultiAgent mock_env_later input = Inr t
        \<and> tx_bcsToHex mock_env_later t = Inr ''0x08'')"
proof -
  let ?st = "initial_state\<lparr>serializedTransaction := ''0x07'', secondSignerSignature := ''0xa2''\<rparr>
               :: (string, nat, nat) state"
  have completed: "ending_of Step1 mock_env_later ?st = Ended Completed"
    by (simp add: handler_defs)
  have slot: "serializedTransaction (snd (invoke Step1 mock_env_later ?st)) = ''0x08''"
    by (simp add: handler_defs)
  from step1_overwrites_transaction_only [of mock_env_later ?st] completed slot
  show ?thesis by simp
qed

text \<open>
  A first run up to Step 2, then Step 1 again with a new transaction: the store holds the
  new transaction 8 next to the authenticator 2 signed for the old transaction 7, and
  Step 3 submits the two together.
\<close>

theorem stale_authenticator_counterexample:
  "secondSignerSignature (run [(Step1, mock_env), (Step2, mock_env2)] initial_state) = ''0xa2''
   \<and> ending_of Step1 mock_env_later (run [(Step1, mock_env), (Step2, mock_env2)] initial_state)
       = Ended Completed
   \<and> serializedTransaction
       (run [(Step1, mock_env), (Step2, mock_env2), (Step1, mock_env_later)] initial_state)
       = ''0x08''
   \<and> secondSignerSignature
       (run [(Step1, mock_env), (Step2, mock_env2), (Step1, mock_env_later)] initial_state)
       = ''0xa2''
   \<and> issued_since
       (run [(Step1, mock_env), (Step2, mock_env2), (Step1, mock_env_later)] initial_state)
       (run [(Step1, mock_env), (Step2, mock_env2), (Step1, mock_env_later), (Step3, mock_env)]
          initial_state)
       = [SignTransaction 8, SubmitTransaction 8 1 [2], WaitForTransaction ''0xf00d'']"
proof -
  define A :: "(string, nat, nat) state" where "A = snd (invoke Step1 mock_env initial_state)"
  define B where "B = snd (invoke Step2 mock_env2 A)"
  define C where "C = snd (invoke Step1 mock_env_later B)"
  define D where "D = snd (invoke Step3 mock_env C)"
  have A: "serializedTransaction A = ''0x07''"
    unfolding A_def by (simp add: handler_defs)
  have B: "serializedTransaction B = ''0x07''" "secondSignerSignature B = ''0xa2''"
    unfolding B_def using A by (simp_all add: handler_defs)
  have C: "ending_of Step1 mock_env_later B = Ended Completed"
    "serializedTransaction C = ''0x08''" "secondSignerSignature C = ''0xa2''"
    unfolding C_def using B by (simp_all add: handler_defs)
  have D: "issued_since C D
             = [SignTransaction 8, SubmitTransaction 8 1 [2], WaitForTransaction ''0xf00d'']"
    unfolding D_def using C by (simp add: handler_defs)
  have "run [(Step1, mock_env), (Step2, mock_env2)] initial_state = B"
    "run [(Step1, mock_env), (Step2, mock_env2), (Step1, mock_env_later)] initial_state = C"
    "run [(Step1, mock_env), (Step2, mock_env2), (Step1, mock_env_later), (Step3, mock_env)]
       initial_state = D"
    by (simp_all add: A_def B_def C_def D_def)
  with B C D show ?thesis by simp
qed

subsection \<open>The log\<close>

text \<open>Inside a \<^verbatim>\<open>try\<close> block and in the \<^verbatim>\<open>catch\<close> block the log only grows at its end.\<close>

lemma step1_try_logs: "prefix (logs s) (logs (snd (step1_try env a s)))"
  by (simp add: step1_try_def loadScript_def Let_def
      split: sum.splits option.splits prod.splits)

lemma step2_try_logs: "prefix (logs s) (logs (snd (step2_try env a s)))"
  by (simp add: step2_try_def Let_def split: sum.splits option.splits prod.splits)

lemma step3_try_logs: "prefix (logs s) (logs (snd (step3_try env a s)))"
  by (simp add: step3_try_def Let_def split: sum.splits option.splits prod.splits)

lemma handler_logs:
  "prefix (logs (snd (body s0)))
     (logs (snd (try_catch_finally body (catch_block env) (setLoading False) s0)))"
  by (simp add: handler_result split: prod.splits outcome.splits sum.splits)

text \<open>
  Claim C4, as the code has it. Writing an entry, Step 2, Step 3 and a Step 1 stopped at
  its guard keep every earlier entry, in order, in front of what they append. A Step 1
  that passes its guard calls \<^verbatim>\<open>clearLogs\<close> first: its log afterwards is the one it
  would have produced from an empty log. \<^verbatim>\<open>clearLogs\<close>, which the Clear button calls as
  well, empties the log.
\<close>

theorem log_appends_except_step1:
  "prefix (logs st) (logs (log env msg st))
   \<and> prefix (logs st) (logs (snd (invoke Step2 env st)))
   \<and> prefix (logs st) (logs (snd (invoke Step3 env st)))
   \<and> (account env = None \<longrightarrow> prefix (logs st) (logs (snd (invoke Step1 env st))))
   \<and> (account env \<noteq> None \<longrightarrow>
        logs (snd (invoke Step1 env st)) = logs (snd (invoke Step1 env (st\<lparr>logs := []\<rparr>))))
   \<and> logs (clearLogs st) = []"
proof (intro conjI impI)
  show "prefix (logs st) (logs (log env msg st))" by simp
  show "prefix (logs st) (logs (snd (invoke Step2 env st)))"
  proof (cases "account env = None \<or> serializedTransaction st = []")
    case True
    then show ?thesis
      by (auto simp: step2_SecondSignerSign_def split: option.splits)
  next
    case False
    then obtain a where a: "account env = Some a" by auto
    have "prefix (logs (setLoading True st)) (logs (snd (step2_try env a (setLoading True st))))"
      by (rule step2_try_logs)
    also have "prefix \<dots> (logs (snd (try_catch_finally (step2_try env a) (catch_block env)
                  (setLoading False) (setLoading True st))))"
      by (rule handler_logs)
    finally show ?thesis using a False by (simp add: step2_SecondSignerSign_def)
  qed
  show "prefix (logs st) (logs (snd (invoke Step3 env st)))"
  proof (cases "account env = None \<or> serializedTransaction st = [] \<or> secondSignerSignature st = []")
    case True
    then show ?thesis
      by (auto simp: step3_FirstSignerSubmit_def split: option.splits)
  next
    case False
    then obtain a where a: "account env = Some a" by auto
    have "prefix (logs (setLoading True st)) (logs (snd (step3_try env a (setLoading True st))))"
      by (rule step3_try_logs)
    also have "prefix \<dots> (logs (snd (try_catch_finally (step3_try env a) (catch_block env)
                  (setLoading False) (setLoading True st))))"
      by (rule handler_logs)
    finally show ?thesis using a False by (simp add: step3_FirstSignerSubmit_def)
  qed
  show "prefix (logs st) (logs (snd (invoke Step1 env st)))" if "account env = None"
    using that by (simp add: step1_CreateTransaction_def)
  show "logs (snd (invoke Step1 env st)) = logs (snd (invoke Step1 env (st\<lparr>logs := []\<rparr>)))"
    if "account env \<noteq> None"
    using that by (auto simp: step1_CreateTransaction_def clearLogs_def setLoading_def)
  show "logs (clearLogs st) = []" by simp
qed

theorem log_appends_except_step1_witness:
  "account mock_env \<noteq> None \<and> account (mock_env\<lparr>account := None\<rparr>) = None
   \<and> logs (snd (invoke Step1 (mock_env\<lparr>account := None\<rparr>)
        (initial_state\<lparr>logs := [''[11:59:59] earlier entry'']\<rparr>)))
      = [''[11:59:59] earlier entry'', ''[12:00:00] ERROR: No account connected'']
   \<and> prefix [''[11:59:59] earlier entry'']
        (logs (snd (invoke Step1 (mock_env\<lparr>account := None\<rparr>)
           (initial_state\<lparr>logs := [''[11:59:59] earlier entry'']\<rparr>))))
   \<and> logs (snd (invoke Step1 mock_env (initial_state\<lparr>logs := [''[11:59:59] earlier entry'']\<rparr>)))
      = logs (snd (invoke Step1 mock_env
          (initial_state\<lparr>logs := [''[11:59:59] earlier entry''], logs := []\<rparr>)))"
proof -
  let ?st = "initial_state\<lparr>logs := [''[11:59:59] earlier entry'']\<rparr> :: (string, nat, nat) state"
  have c: "account mock_env \<noteq> None" and d: "account (mock_env\<lparr>account := None\<rparr>) = None"
    by simp_all
  have e: "logs (snd (invoke Step1 (mock_env\<lparr>account := None\<rparr>) ?st))
      = [''[11:59:59] earlier entry'', ''[12:00:00] ERROR: No account connected'']"
    by (simp add: handler_defs log_entry_def mock_env_def initial_state_def)
  from log_appends_except_step1 [of ?st mock_env] c
  have 1: "logs (snd (invoke Step1 mock_env ?st))
             = logs (snd (invoke Step1 mock_env (?st\<lparr>logs := []\<rparr>)))"
    by blast
  from log_appends_except_step1 [of ?st "mock_env\<lparr>account := None\<rparr>"] d
  have 2: "prefix (logs ?st) (logs (snd (invoke Step1 (mock_env\<lparr>account := None\<rparr>) ?st)))"
    by blast
  from c d e 1 2 show ?thesis by (simp add: initial_state_def)
qed

text \<open>An entry written before Step 1 is gone after it.\<close>

theorem log_cleared_counterexample:
  "''[11:59:59] earlier entry''
     \<notin> set (logs (snd (invoke Step1 mock_env
                (initial_state\<lparr>logs := [''[11:59:59] earlier entry'']\<rparr>))))
   \<and> hd (logs (snd (invoke Step1 mock_env
                (initial_state\<lparr>logs := [''[11:59:59] earlier entry'']\<rparr>))))
       = ''[12:00:00] === STEP 1: Create Transaction (First Sender) ===''
   \<and> logs (clearLogs (initial_state\<lparr>logs := [''[11:59:59] earlier entry'']\<rparr>)) = []"
  by (simp add: handler_defs log_entry_def show_nat.simps digit_def)

subsection \<open>When Step 1 succeeds\<close>

text \<open>
  A Step 1 that does not run to its end leaves the transaction slot alone; one that does
  has stored the hexadecimal text of a transaction.
\<close>

lemma step1_failed_keeps_transaction:
  "ending_of Step1 env st \<noteq> Ended Completed \<Longrightarrow>
   serializedTransaction (snd (invoke Step1 env st)) = serializedTransaction st"
proof (cases "account env")
  case None
  then show ?thesis by (simp add: step1_CreateTransaction_def)
next
  case (Some a)
  assume "ending_of Step1 env st \<noteq> Ended Completed"
  with Some have "fst (step1_try env a (clearLogs (setLoading True st))) \<noteq> Completed"
    by simp
  with step1_try_frame(2) [of env a "clearLogs (setLoading True st)"] Some
  show ?thesis by (simp add: step1_CreateTransaction_def handler_slots)
qed

lemma step1_succeeded_transaction:
  assumes "ending_of Step1 env st = Ended Completed"
  shows "\<exists>t. tx_bcsToHex env t = Inr (serializedTransaction (snd (invoke Step1 env st)))"
proof -
  from assms obtain a where a: "account env = Some a"
    and c: "fst (step1_try env a (clearLogs (setLoading True st))) = Completed"
    by (auto split: option.splits)
  from c step1_try_completed [of env a "clearLogs (setLoading True st)"] a
  show ?thesis
    by (auto simp: step1_CreateTransaction_def handler_slots)
qed

lemma mock_tx_hex_nonempty [simp]:
  "tx_hex_nonempty mock_env" "tx_hex_nonempty mock_env2" "tx_hex_nonempty mock_env_later"
  "tx_hex_nonempty mock_env_rejecting" "tx_hex_nonempty mock_env_offline"
  "tx_hex_nonempty mock_env_undefined"
  by (auto simp: tx_hex_nonempty_def)

text \<open>
  A transaction built in an invocation of Step 1, and rendered by the SDK, is what makes
  that invocation a success.
\<close>

lemma step1_try_built:
  "BuildMultiAgent input \<in> set (drop (length (calls s)) (calls (snd (step1_try env a s))))
   \<Longrightarrow> buildMultiAgent env input = Inr t \<Longrightarrow> tx_bcsToHex env t = Inr h
   \<Longrightarrow> fst (step1_try env a s) = Completed"
  by (auto simp: step1_try_def loadScript_def Let_def
      split: sum.splits option.splits prod.splits if_splits)

lemma step1_succeeded_built:
  assumes "ending_of Step1 env st = Ended Completed"
  shows "\<exists>input t. BuildMultiAgent input \<in> set (issued_since st (snd (invoke Step1 env st)))
             \<and> buildMultiAgent env input = Inr t
             \<and> tx_bcsToHex env t = Inr (serializedTransaction (snd (invoke Step1 env st)))"
proof -
  from assms obtain a where a: "account env = Some a"
    and c: "fst (step1_try env a (clearLogs (setLoading True st))) = Completed"
    by (auto split: option.splits)
  from c step1_try_completed [of env a "clearLogs (setLoading True st)"]
  obtain input t where
    "calls (snd (step1_try env a (clearLogs (setLoading True st))))
        = calls st @ [Fetch ''/transfer_two_by_two.mv'',
                     Prompt ''Enter second signer address (0x...):'', BuildMultiAgent input]"
    and "buildMultiAgent env input = Inr t"
    and "tx_bcsToHex env t
           = Inr (serializedTransaction (snd (step1_try env a (clearLogs (setLoading True st)))))"
    by auto
  with a show ?thesis
    by (auto simp: step1_CreateTransaction_def handler_slots issued_since_def)
qed

lemma step1_built_succeeded:
  assumes "BuildMultiAgent input \<in> set (issued_since st (snd (invoke Step1 env st)))"
    and "buildMultiAgent env input = Inr t"
    and "tx_bcsToHex env t = Inr h"
  shows "ending_of Step1 env st = Ended Completed"
proof (cases "account env")
  case None
  with assms(1) show ?thesis
    by (simp add: step1_CreateTransaction_def issued_since_def)
next
  case (Some a)
  with assms(1) have "BuildMultiAgent input
      \<in> set (drop (length (calls (clearLogs (setLoading True st))))
               (calls (snd (step1_try env a (clearLogs (setLoading True st))))))"
    by (simp add: step1_CreateTransaction_def issued_since_def handler_slots)
  from step1_try_built [OF this assms(2,3)] Some show ?thesis by simp
qed

text \<open>
  Claim C5. Step 1 succeeds if and only if, afterwards, the transaction slot is non-empty
  and holds the hexadecimal text of a transaction built in this invocation, and the
  authenticator slot is what it was before the call. The SDK is taken never to render a
  transaction as the empty string (\<open>tx_hex_nonempty\<close>).
\<close>

theorem step1_succeeds_iff_transaction_stored:
  assumes sdk: "tx_hex_nonempty env"
  shows "(ending_of Step1 env st = Ended Completed)
       = (serializedTransaction (snd (invoke Step1 env st)) \<noteq> []
          \<and> (\<exists>input t.
                BuildMultiAgent input \<in> set (issued_since st (snd (invoke Step1 env st)))
                \<and> buildMultiAgent env input = Inr t
                \<and> tx_bcsToHex env t = Inr (serializedTransaction (snd (invoke Step1 env st))))
          \<and> secondSignerSignature (snd (invoke Step1 env st)) = secondSignerSignature st)"
proof
  assume ok: "ending_of Step1 env st = Ended Completed"
  from step1_succeeded_built [OF ok] obtain input t where
    built: "BuildMultiAgent input \<in> set (issued_since st (snd (invoke Step1 env st)))"
      "buildMultiAgent env input = Inr t"
      "tx_bcsToHex env t = Inr (serializedTransaction (snd (invoke Step1 env st)))"
    by blast
  from built(3) sdk have "serializedTransaction (snd (invoke Step1 env st)) \<noteq> []"
    unfolding tx_hex_nonempty_def by blast
  with built step1_keeps_authenticator [of env st]
  show "serializedTransaction (snd (invoke Step1 env st)) \<noteq> []
          \<and> (\<exists>input t.
                BuildMultiAgent input \<in> set (issued_since st (snd (invoke Step1 env st)))
                \<and> buildMultiAgent env input = Inr t
                \<and> tx_bcsToHex env t = Inr (serializedTransaction (snd (invoke Step1 env st))))
          \<and> secondSignerSignature (snd (invoke Step1 env st)) = secondSignerSignature st"
    by blast
next
  assume "serializedTransaction (snd (invoke Step1 env st)) \<noteq> []
          \<and> (\<exists>input t.
                BuildMultiAgent input \<in> set (issued_since st (snd (invoke Step1 env st)))
                \<and> buildMultiAgent env input = Inr t
                \<and> tx_bcsToHex env t = Inr (serializedTransaction (snd (invoke Step1 env st))))
          \<and> secondSignerSignature (snd (invoke Step1 env st)) = secondSignerSignature st"
  then obtain input t where
    "BuildMultiAgent input \<in> set (issued_since st (snd (invoke Step1 env st)))"
    "buildMultiAgent env input = Inr t"
    "tx_bcsToHex env t = Inr (serializedTransaction (snd (invoke Step1 env st)))"
    by blast
  then show "ending_of Step1 env st = Ended Completed"
    by (rule step1_built_succeeded)
qed

text \<open>
  On the empty store Step 1 succeeds and the slot holds the text of transaction 7. Invoked
  again while the network is down it fails: the slot still holds that text, but this
  invocation has built nothing.
\<close>

theorem step1_succeeds_iff_transaction_stored_witness:
  "tx_hex_nonempty mock_env
   \<and> ending_of Step1 mock_env initial_state = Ended Completed
   \<and> serializedTransaction (snd (invoke Step1 mock_env initial_state)) = ''0x07''
   \<and> (\<exists>input. BuildMultiAgent input
                  \<in> set (issued_since initial_state (snd (invoke Step1 mock_env initial_state)))
                \<and> buildMultiAgent mock_env input = Inr 7)
   \<and> tx_bcsToHex mock_env 7 = Inr ''0x07''
   \<and> secondSignerSignature (snd (invoke Step1 mock_env initial_state)) = []
   \<and> tx_hex_nonempty mock_env_offline
   \<and> ending_of Step1 mock_env_offline (run [(Step1, mock_env)] initial_state)
       = Ended (Threw (ErrorObject ''TypeError'' ''Failed to fetch''))
   \<and> serializedTransaction (run [(Step1, mock_env), (Step1, mock_env_offline)] initial_state)
       = ''0x07''
   \<and> issued_since (run [(Step1, mock_env)] initial_state)
         (run [(Step1, mock_env), (Step1, mock_env_offline)] initial_state)
       = [Fetch ''/transfer_two_by_two.mv'']
   \<and> \<not> (\<exists>input t. BuildMultiAgent input
                  \<in> set (issued_since (run [(Step1, mock_env)] initial_state)
                       (run [(Step1, mock_env), (Step1, mock_env_offline)] initial_state))
                \<and> buildMultiAgent mock_env_offline input = Inr t
                \<and> tx_bcsToHex mock_env_offline t
                    = Inr (serializedTransaction
                        (run [(Step1, mock_env), (Step1, mock_env_offline)] initial_state)))"
proof -
  let ?st = "initial_state :: (string, nat, nat) state"
  define A :: "(string, nat, nat) state" where "A = snd (invoke Step1 mock_env initial_state)"
  define B where "B = snd (invoke Step1 mock_env_offline A)"
  have runs: "run [(Step1, mock_env)] initial_state = A"
    "run [(Step1, mock_env), (Step1, mock_env_offline)] initial_state = B"
    by (simp_all add: A_def B_def)
  have ok: "ending_of Step1 mock_env ?st = Ended Completed"
    by (simp add: handler_defs)
  have A: "serializedTransaction A = ''0x07''" "secondSignerSignature A = []"
    unfolding A_def by (simp_all add: handler_defs)
  from step1_succeeds_iff_transaction_stored [OF mock_tx_hex_nonempty(1), of ?st] ok
  have built: "\<exists>input t. BuildMultiAgent input \<in> set (issued_since ?st A)
                \<and> buildMultiAgent mock_env input = Inr t
                \<and> tx_bcsToHex mock_env t = Inr (serializedTransaction A)"
    unfolding A_def by blast
  then have built7: "\<exists>input. BuildMultiAgent input \<in> set (issued_since ?st A)
                \<and> buildMultiAgent mock_env input = Inr 7"
    by auto
  have failed: "ending_of Step1 mock_env_offline A
       = Ended (Threw (ErrorObject ''TypeError'' ''Failed to fetch''))"
    by (simp add: handler_defs)
  have B: "serializedTransaction B = ''0x07''"
    "issued_since A B = [Fetch ''/transfer_two_by_two.mv'']"
    unfolding B_def using A by (simp_all add: handler_defs)
  have not_ok: "ending_of Step1 mock_env_offline A \<noteq> Ended Completed"
    using failed by simp
  have filled: "serializedTransaction B \<noteq> []"
    using B(1) by simp
  have kept: "secondSignerSignature B = secondSignerSignature A"
    unfolding B_def by (rule step1_keeps_authenticator)
  from step1_succeeds_iff_transaction_stored [OF mock_tx_hex_nonempty(5), of A]
  have nothing_built: "\<not> (\<exists>input t. BuildMultiAgent input \<in> set (issued_since A B)
                \<and> buildMultiAgent mock_env_offline input = Inr t
                \<and> tx_bcsToHex mock_env_offline t = Inr (serializedTransaction B))"
    unfolding B_def [symmetric] using not_ok filled kept by blast
  have hex: "tx_bcsToHex mock_env 7 = Inr ''0x07''" by simp
  from ok A built7 hex failed B nothing_built show ?thesis
    unfolding runs A_def [symmetric] by simp
qed

subsection \<open>The authenticator between Step 2 and Step 3\<close>

text \<open>
  What a completed Step 2 has done, and where the co-signer of a submission comes from:
  Step 3 decodes the authenticator slot, without its prefix, and submits the result as the
  only additional signer.
\<close>

lemma without_with_0x: "without_0x (with_0x h) = without_0x h"
  by (simp add: without_0x_def with_0x_def startsWith_def slice_from_def)

lemma with_0x_startsWith: "startsWith (with_0x h) ''0x''"
  by (simp add: with_0x_def startsWith_def)

lemma step2_try_completed:
  "fst (step2_try env a s) \<noteq> Completed \<or>
   (\<exists>b t au h. hexToBytes env (serializedTransaction s) = Inr b
      \<and> tx_deserialize env b = Inr t
      \<and> signTransaction env t = Inr au
      \<and> au_bcsToHex env au = Inr h
      \<and> calls (snd (step2_try env a s)) = calls s @ [SignTransaction t]
      \<and> secondSignerSignature (snd (step2_try env a s)) = with_0x h)"
  by (simp add: step2_try_def Let_def split: sum.splits option.splits prod.splits)

lemma step2_succeeded:
  assumes "ending_of Step2 env st = Ended Completed"
  shows "\<exists>b t au h. hexToBytes env (serializedTransaction st) = Inr b
      \<and> tx_deserialize env b = Inr t
      \<and> signTransaction env t = Inr au
      \<and> au_bcsToHex env au = Inr h
      \<and> issued_since st (snd (invoke Step2 env st)) = [SignTransaction t]
      \<and> secondSignerSignature (snd (invoke Step2 env st)) = with_0x h"
proof -
  from assms obtain a where a: "account env = Some a"
    and ne: "serializedTransaction st \<noteq> []"
    and c: "fst (step2_try env a (setLoading True st)) = Completed"
    by (auto split: option.splits if_splits)
  from c step2_try_completed [of env a "setLoading True st"] a ne
  show ?thesis
    by (auto simp: step2_SecondSignerSign_def handler_slots issued_since_def)
qed

lemma step3_try_submits:
  "SubmitTransaction t sa rs \<in> set (drop (length (calls s)) (calls (snd (step3_try env a s))))
   \<longrightarrow> (\<exists>b r. hexToBytes env (without_0x (secondSignerSignature s)) = Inr b
          \<and> au_deserialize env b = Inr r \<and> rs = [r])"
  by (simp add: step3_try_def Let_def split: sum.splits option.splits prod.splits)

lemma step3_submits:
  assumes "SubmitTransaction t sa rs \<in> set (issued_since st (snd (invoke Step3 env st)))"
  shows "\<exists>b r. hexToBytes env (without_0x (secondSignerSignature st)) = Inr b
          \<and> au_deserialize env b = Inr r \<and> rs = [r]"
proof (cases "account env = None \<or> serializedTransaction st = [] \<or> secondSignerSignature st = []")
  case True
  with assms show ?thesis
    by (auto simp: step3_FirstSignerSubmit_def issued_since_def split: option.splits)
next
  case False
  then obtain a where a: "account env = Some a" by auto
  from assms a False step3_try_submits [of t sa rs "setLoading True st" env a]
  show ?thesis
    by (simp add: step3_FirstSignerSubmit_def handler_slots issued_since_def)
qed

text \<open>
  Claim C6. When Step 2 succeeds twice in a row, the second run issues one signing
  request; the authenticator slot afterwards holds the text of the authenticator \<open>au2\<close>
  returned by that request (with its prefix), and whenever a following Step 3, in any
  environment, submits, its list of additional signers is the one authenticator decoded
  from that text.
\<close>

theorem second_signature_is_consumed:
  assumes first: "ending_of Step2 env1 st = Ended Completed"
    and second: "ending_of Step2 env2 (snd (invoke Step2 env1 st)) = Ended Completed"
  shows "\<exists>t au2 h2.
           issued_since (snd (invoke Step2 env1 st)) (run [(Step2, env1), (Step2, env2)] st)
             = [SignTransaction t]
         \<and> signTransaction env2 t = Inr au2
         \<and> au_bcsToHex env2 au2 = Inr h2
         \<and> secondSignerSignature (run [(Step2, env1), (Step2, env2)] st) = with_0x h2
         \<and> (\<forall>env3 t3 s3 rs.
               SubmitTransaction t3 s3 rs
                 \<in> set (issued_since (run [(Step2, env1), (Step2, env2)] st)
                          (run [(Step2, env1), (Step2, env2), (Step3, env3)] st))
               \<longrightarrow> (\<exists>b r. hexToBytes env3 (without_0x (with_0x h2)) = Inr b
                       \<and> au_deserialize env3 b = Inr r \<and> rs = [r]))"
proof -
  let ?st1 = "snd (invoke Step2 env1 st)"
  let ?st2 = "snd (invoke Step2 env2 ?st1)"
  from step2_succeeded [OF second] obtain t au2 h2 where
    s: "issued_since ?st1 ?st2 = [SignTransaction t]"
       "signTransaction env2 t = Inr au2" "au_bcsToHex env2 au2 = Inr h2"
       "secondSignerSignature ?st2 = with_0x h2"
    by blast
  have "\<exists>b r. hexToBytes env3 (without_0x (with_0x h2)) = Inr b
            \<and> au_deserialize env3 b = Inr r \<and> rs = [r]"
    if "SubmitTransaction t3 s3 rs \<in> set (issued_since ?st2 (snd (invoke Step3 env3 ?st2)))"
    for env3 t3 s3 rs
    using step3_submits [OF that] s(4) by simp
  with s show ?thesis by (simp del: invoke.simps)
qed

text \<open>
  After Step 1 the first signer signs by mistake (authenticator 1), then the second signer
  signs (authenticator 2): the store holds the text of authenticator 2 and Step 3 submits
  authenticator 2.
\<close>

theorem second_signature_is_consumed_witness:
  "ending_of Step2 mock_env (run [(Step1, mock_env)] initial_state) = Ended Completed
   \<and> ending_of Step2 mock_env2 (snd (invoke Step2 mock_env (run [(Step1, mock_env)] initial_state)))
       = Ended Completed
   \<and> secondSignerSignature (run [(Step1, mock_env), (Step2, mock_env)] initial_state) = ''0xa1''
   \<and> secondSignerSignature
        (run [(Step2, mock_env), (Step2, mock_env2)] (run [(Step1, mock_env)] initial_state))
       = ''0xa2''
   \<and> issued_since
        (run [(Step2, mock_env), (Step2, mock_env2)] (run [(Step1, mock_env)] initial_state))
        (run [(Step2, mock_env), (Step2, mock_env2), (Step3, mock_env)]
           (run [(Step1, mock_env)] initial_state))
       = [SignTransaction 7, SubmitTransaction 7 1 [2], WaitForTransaction ''0xf00d'']
   \<and> (\<exists>t au2 h2.
           issued_since (snd (invoke Step2 mock_env (run [(Step1, mock_env)] initial_state)))
              (run [(Step2, mock_env), (Step2, mock_env2)] (run [(Step1, mock_env)] initial_state))
             = [SignTransaction t]
         \<and> signTransaction mock_env2 t = Inr au2
         \<and> au_bcsToHex mock_env2 au2 = Inr h2
         \<and> secondSignerSignature
              (run [(Step2, mock_env), (Step2, mock_env2)] (run [(Step1, mock_env)] initial_state))
             = with_0x h2
         \<and> (\<forall>env3 t3 s3 rs.
               SubmitTransaction t3 s3 rs
                 \<in> set (issued_since
                    (run [(Step2, mock_env), (Step2, mock_env2)]
                       (run [(Step1, mock_env)] initial_state))
                    (run [(Step2, mock_env), (Step2, mock_env2), (Step3, env3)]
                       (run [(Step1, mock_env)] initial_state)))
               \<longrightarrow> (\<exists>b r. hexToBytes env3 (without_0x (with_0x h2)) = Inr b
                       \<and> au_deserialize env3 b = Inr r \<and> rs = [r])))"
proof -
  define A :: "(string, nat, nat) state" where "A = snd (invoke Step1 mock_env initial_state)"
  define B where "B = snd (invoke Step2 mock_env A)"
  define C where "C = snd (invoke Step2 mock_env2 B)"
  define D where "D = snd (invoke Step3 mock_env C)"
  have A: "serializedTransaction A = ''0x07''"
    unfolding A_def by (simp add: handler_defs)
  have B: "ending_of Step2 mock_env A = Ended Completed"
    "serializedTransaction B = ''0x07''" "secondSignerSignature B = ''0xa1''"
    unfolding B_def using A by (simp_all add: handler_defs)
  have C: "ending_of Step2 mock_env2 B = Ended Completed"
    "serializedTransaction C = ''0x07''" "secondSignerSignature C = ''0xa2''"
    unfolding C_def using B by (simp_all add: handler_defs)
  have D: "issued_since C D
             = [SignTransaction 7, SubmitTransaction 7 1 [2], WaitForTransaction ''0xf00d'']"
    unfolding D_def using C by (simp add: handler_defs)
  have runs: "run [(Step1, mock_env)] initial_state = A"
    "run [(Step1, mock_env), (Step2, mock_env)] initial_state = B"
    "run [(Step2, mock_env), (Step2, mock_env2)] A = C"
    "run [(Step2, mock_env), (Step2, mock_env2), (Step3, mock_env)] A = D"
    "snd (invoke Step2 mock_env A) = B"
    by (simp_all add: A_def B_def C_def D_def)
  from second_signature_is_consumed [of mock_env A mock_env2] B(1) C(1)
  have general: "\<exists>t au2 h2.
           issued_since (snd (invoke Step2 mock_env A)) (run [(Step2, mock_env), (Step2, mock_env2)] A)
             = [SignTransaction t]
         \<and> signTransaction mock_env2 t = Inr au2
         \<and> au_bcsToHex mock_env2 au2 = Inr h2
         \<and> secondSignerSignature (run [(Step2, mock_env), (Step2, mock_env2)] A) = with_0x h2
         \<and> (\<forall>env3 t3 s3 rs.
               SubmitTransaction t3 s3 rs
                 \<in> set (issued_since (run [(Step2, mock_env), (Step2, mock_env2)] A)
                          (run [(Step2, mock_env), (Step2, mock_env2), (Step3, env3)] A))
               \<longrightarrow> (\<exists>b r. hexToBytes env3 (without_0x (with_0x h2)) = Inr b
                       \<and> au_deserialize env3 b = Inr r \<and> rs = [r]))"
    unfolding B_def by blast
  show ?thesis
    unfolding runs(1)
    using general B C D unfolding runs by (intro conjI)
qed

text \<open>Step 3 reads the authenticator slot only through \<open>without_0x\<close>.\<close>

lemma without_0x_prefixed: "\<not> startsWith x ''0x'' \<Longrightarrow> without_0x (''0x'' @ x) = x \<and> without_0x x = x"
  by (simp add: without_0x_def startsWith_def slice_from_def)

lemma step3_try_reads_digits:
  assumes "without_0x g = without_0x g'"
  shows "fst (step3_try env a (s\<lparr>secondSignerSignature := g\<rparr>))
           = fst (step3_try env a (s\<lparr>secondSignerSignature := g'\<rparr>))"
    and "logs (snd (step3_try env a (s\<lparr>secondSignerSignature := g\<rparr>)))
           = logs (snd (step3_try env a (s\<lparr>secondSignerSignature := g'\<rparr>)))"
    and "calls (snd (step3_try env a (s\<lparr>secondSignerSignature := g\<rparr>)))
           = calls (snd (step3_try env a (s\<lparr>secondSignerSignature := g'\<rparr>)))"
    and "logged (snd (step3_try env a (s\<lparr>secondSignerSignature := g\<rparr>)))
           = logged (snd (step3_try env a (s\<lparr>secondSignerSignature := g'\<rparr>)))"
  using assms
  by (simp_all add: step3_try_def Let_def
      split: sum.splits option.splits prod.splits)

lemma handler_logs_eq:
  "logs (snd (try_catch_finally body (catch_block env) (setLoading False) s0))
     = (case fst (body s0) of
          Threw e \<Rightarrow>
            (case error_text e of
               Inl type_error \<Rightarrow> logs (snd (body s0))
             | Inr text \<Rightarrow>
                 logs (snd (body s0))
                   @ [log_entry env (logged (snd (body s0))) (''ERROR: '' @ text)])
        | Completed \<Rightarrow> logs (snd (body s0))
        | ReturnedEarly \<Rightarrow> logs (snd (body s0)))"
  by (simp add: handler_result split: prod.splits outcome.splits sum.splits)

lemma setLoading_signature:
  "setLoading b (st\<lparr>secondSignerSignature := g\<rparr>)
     = (setLoading b st)\<lparr>secondSignerSignature := g\<rparr>"
  by (simp add: setLoading_def)

lemma step3_reads_digits:
  assumes "without_0x g = without_0x g'" and "g \<noteq> []" and "g' \<noteq> []"
  shows "ending_of Step3 env (st\<lparr>secondSignerSignature := g\<rparr>)
           = ending_of Step3 env (st\<lparr>secondSignerSignature := g'\<rparr>)"
    and "logs (snd (invoke Step3 env (st\<lparr>secondSignerSignature := g\<rparr>)))
           = logs (snd (invoke Step3 env (st\<lparr>secondSignerSignature := g'\<rparr>)))"
    and "calls (snd (invoke Step3 env (st\<lparr>secondSignerSignature := g\<rparr>)))
           = calls (snd (invoke Step3 env (st\<lparr>secondSignerSignature := g'\<rparr>)))"
proof -
  have "ending_of Step3 env (st\<lparr>secondSignerSignature := g\<rparr>)
           = ending_of Step3 env (st\<lparr>secondSignerSignature := g'\<rparr>)
      \<and> logs (snd (invoke Step3 env (st\<lparr>secondSignerSignature := g\<rparr>)))
           = logs (snd (invoke Step3 env (st\<lparr>secondSignerSignature := g'\<rparr>)))
      \<and> calls (snd (invoke Step3 env (st\<lparr>secondSignerSignature := g\<rparr>)))
           = calls (snd (invoke Step3 env (st\<lparr>secondSignerSignature := g'\<rparr>)))"
  proof (cases "account env")
    case None
    then show ?thesis by (simp add: step3_FirstSignerSubmit_def)
  next
    case (Some a)
    with assms(2,3) step3_try_reads_digits [OF assms(1), of env a "setLoading True st"]
    show ?thesis
      by (simp add: step3_FirstSignerSubmit_def handler_logs_eq handler_slots
          setLoading_signature split: outcome.splits sum.splits)
  qed
  then show "ending_of Step3 env (st\<lparr>secondSignerSignature := g\<rparr>)
           = ending_of Step3 env (st\<lparr>secondSignerSignature := g'\<rparr>)"
    and "logs (snd (invoke Step3 env (st\<lparr>secondSignerSignature := g\<rparr>)))
           = logs (snd (invoke Step3 env (st\<lparr>secondSignerSignature := g'\<rparr>)))"
    and "calls (snd (invoke Step3 env (st\<lparr>secondSignerSignature := g\<rparr>)))
           = calls (snd (invoke Step3 env (st\<lparr>secondSignerSignature := g'\<rparr>)))"
    by blast+
qed

text \<open>
  Claim C7. After a successful Step 2 the authenticator slot starts with \<^verbatim>\<open>0x\<close>: it is
  the wallet's text \<open>h\<close> itself when \<open>h\<close> has the prefix, and \<^verbatim>\<open>0x\<close> followed by
  \<open>h\<close> when it has not. For a non-empty text \<open>x\<close> without the prefix, Step 3 behaves
  the same on the stored values \<open>x\<close> and \<^verbatim>\<open>0x\<close>\<open>x\<close>: it decodes \<open>x\<close> in both cases, ends
  the same way, writes the same log entries and issues the same calls.
\<close>

theorem prefix_added_and_tolerated:
  "(ending_of Step2 env st = Ended Completed \<longrightarrow>
      startsWith (secondSignerSignature (snd (invoke Step2 env st))) ''0x''
      \<and> (\<exists>au h. au_bcsToHex env au = Inr h
            \<and> secondSignerSignature (snd (invoke Step2 env st))
                = (if startsWith h ''0x'' then h else ''0x'' @ h)))
   \<and> (x \<noteq> [] \<and> \<not> startsWith x ''0x'' \<longrightarrow>
      without_0x (''0x'' @ x) = x \<and> without_0x x = x
      \<and> ending_of Step3 env (st\<lparr>secondSignerSignature := ''0x'' @ x\<rparr>)
          = ending_of Step3 env (st\<lparr>secondSignerSignature := x\<rparr>)
      \<and> logs (snd (invoke Step3 env (st\<lparr>secondSignerSignature := ''0x'' @ x\<rparr>)))
          = logs (snd (invoke Step3 env (st\<lparr>secondSignerSignature := x\<rparr>)))
      \<and> calls (snd (invoke Step3 env (st\<lparr>secondSignerSignature := ''0x'' @ x\<rparr>)))
          = calls (snd (invoke Step3 env (st\<lparr>secondSignerSignature := x\<rparr>)))
      \<and> (\<forall>t sa rs. SubmitTransaction t sa rs
             \<in> set (issued_since (st\<lparr>secondSignerSignature := ''0x'' @ x\<rparr>)
                      (snd (invoke Step3 env (st\<lparr>secondSignerSignature := ''0x'' @ x\<rparr>))))
           \<longrightarrow> (\<exists>b r. hexToBytes env x = Inr b \<and> au_deserialize env b = Inr r \<and> rs = [r])))"
proof (intro conjI impI allI)
  assume ok: "ending_of Step2 env st = Ended Completed"
  from step2_succeeded [OF ok] obtain au h where
    h: "au_bcsToHex env au = Inr h"
       "secondSignerSignature (snd (invoke Step2 env st)) = with_0x h"
    by blast
  show "startsWith (secondSignerSignature (snd (invoke Step2 env st))) ''0x''"
    unfolding h(2) by (rule with_0x_startsWith)
  from h show "\<exists>au h. au_bcsToHex env au = Inr h
            \<and> secondSignerSignature (snd (invoke Step2 env st))
                = (if startsWith h ''0x'' then h else ''0x'' @ h)"
    unfolding with_0x_def by blast
next
  assume x: "x \<noteq> [] \<and> \<not> startsWith x ''0x''"
  then have digits: "without_0x (''0x'' @ x) = x" "without_0x x = x"
    using without_0x_prefixed by blast+
  then have same: "without_0x (''0x'' @ x) = without_0x x" by simp
  have ne: "''0x'' @ x \<noteq> []" "x \<noteq> []" using x by simp_all
  show "without_0x (''0x'' @ x) = x" "without_0x x = x" by (rule digits)+
  show "ending_of Step3 env (st\<lparr>secondSignerSignature := ''0x'' @ x\<rparr>)
          = ending_of Step3 env (st\<lparr>secondSignerSignature := x\<rparr>)"
    by (rule step3_reads_digits(1) [OF same ne])
  show "logs (snd (invoke Step3 env (st\<lparr>secondSignerSignature := ''0x'' @ x\<rparr>)))
          = logs (snd (invoke Step3 env (st\<lparr>secondSignerSignature := x\<rparr>)))"
    by (rule step3_reads_digits(2) [OF same ne])
  show "calls (snd (invoke Step3 env (st\<lparr>secondSignerSignature := ''0x'' @ x\<rparr>)))
          = calls (snd (invoke Step3 env (st\<lparr>secondSignerSignature := x\<rparr>)))"
    by (rule step3_reads_digits(3) [OF same ne])
  show "\<exists>b r. hexToBytes env x = Inr b \<and> au_deserialize env b = Inr r \<and> rs = [r]"
    if "SubmitTransaction t sa rs
             \<in> set (issued_since (st\<lparr>secondSignerSignature := ''0x'' @ x\<rparr>)
                      (snd (invoke Step3 env (st\<lparr>secondSignerSignature := ''0x'' @ x\<rparr>))))"
    for t sa rs
    using step3_submits [OF that] digits(1) by simp
qed

text \<open>
  The wallet renders authenticator 1 as \<^verbatim>\<open>a1\<close>, without the prefix: Step 2 stores
  \<^verbatim>\<open>0xa1\<close>, and Step 3 submits authenticator 1 from either form.
\<close>

theorem prefix_added_and_tolerated_witness:
  "ending_of Step2 mock_env (run [(Step1, mock_env)] initial_state) = Ended Completed
   \<and> au_bcsToHex mock_env 1 = Inr ''a1''
   \<and> secondSignerSignature (snd (invoke Step2 mock_env (run [(Step1, mock_env)] initial_state)))
       = ''0xa1''
   \<and> startsWith (secondSignerSignature
         (snd (invoke Step2 mock_env (run [(Step1, mock_env)] initial_state)))) ''0x''
   \<and> ''a1'' \<noteq> [] \<and> \<not> startsWith ''a1'' ''0x''
   \<and> issued_since ((run [(Step1, mock_env)] initial_state)\<lparr>secondSignerSignature := ''a1''\<rparr>)
         (snd (invoke Step3 mock_env
            ((run [(Step1, mock_env)] initial_state)\<lparr>secondSignerSignature := ''a1''\<rparr>)))
       = [SignTransaction 7, SubmitTransaction 7 1 [1], WaitForTransaction ''0xf00d'']
   \<and> calls (snd (invoke Step3 mock_env
         ((run [(Step1, mock_env)] initial_state)\<lparr>secondSignerSignature := ''0x'' @ ''a1''\<rparr>)))
       = calls (snd (invoke Step3 mock_env
         ((run [(Step1, mock_env)] initial_state)\<lparr>secondSignerSignature := ''a1''\<rparr>)))
   \<and> logs (snd (invoke Step3 mock_env
         ((run [(Step1, mock_env)] initial_state)\<lparr>secondSignerSignature := ''0x'' @ ''a1''\<rparr>)))
       = logs (snd (invoke Step3 mock_env
         ((run [(Step1, mock_env)] initial_state)\<lparr>secondSignerSignature := ''a1''\<rparr>)))"
proof -
  define A :: "(string, nat, nat) state" where "A = snd (invoke Step1 mock_env initial_state)"
  have run: "run [(Step1, mock_env)] initial_state = A" by (simp add: A_def)
  have A: "serializedTransaction A = ''0x07''"
    unfolding A_def by (simp add: handler_defs)
  have ok: "ending_of Step2 mock_env A = Ended Completed"
    and slot: "secondSignerSignature (snd (invoke Step2 mock_env A)) = ''0xa1''"
    using A by (simp_all add: handler_defs)
  have x: "''a1'' \<noteq> [] \<and> \<not> startsWith ''a1'' ''0x''"
    by (simp add: startsWith_def)
  have sub: "issued_since (A\<lparr>secondSignerSignature := ''a1''\<rparr>)
         (snd (invoke Step3 mock_env (A\<lparr>secondSignerSignature := ''a1''\<rparr>)))
       = [SignTransaction 7, SubmitTransaction 7 1 [1], WaitForTransaction ''0xf00d'']"
    using A by (simp add: handler_defs)
  from prefix_added_and_tolerated [of mock_env A "''a1''"] ok x
  have general:
    "startsWith (secondSignerSignature (snd (invoke Step2 mock_env A))) ''0x''"
    "calls (snd (invoke Step3 mock_env (A\<lparr>secondSignerSignature := ''0x'' @ ''a1''\<rparr>)))
       = calls (snd (invoke Step3 mock_env (A\<lparr>secondSignerSignature := ''a1''\<rparr>)))"
    "logs (snd (invoke Step3 mock_env (A\<lparr>secondSignerSignature := ''0x'' @ ''a1''\<rparr>)))
       = logs (snd (invoke Step3 mock_env (A\<lparr>secondSignerSignature := ''a1''\<rparr>)))"
    by blast+
  have hex: "au_bcsToHex mock_env 1 = Inr ''a1''" by simp
  show ?thesis
    unfolding run using ok hex slot general(1) x sub general(2,3) by (intro conjI) blast+
qed

subsection \<open>The two slots over a session\<close>

text \<open>
  Which handler writes which slot: Step 1 stores a transaction text or leaves the slot;
  Step 2 and Step 3 never write the transaction slot; only Step 2 writes the authenticator
  slot, and only behind its guard on the transaction slot.
\<close>

lemma step1_transaction_cases:
  "serializedTransaction (snd (invoke Step1 env st)) = serializedTransaction st
   \<or> (\<exists>t. tx_bcsToHex env t = Inr (serializedTransaction (snd (invoke Step1 env st))))"
  using step1_failed_keeps_transaction [of env st] step1_succeeded_transaction [of env st]
  by blast

lemma step2_keeps_transaction:
  "serializedTransaction (snd (invoke Step2 env st)) = serializedTransaction st"
  by (simp add: step2_SecondSignerSign_def handler_slots step2_try_frame split: option.splits)

lemma step3_keeps_slots:
  "serializedTransaction (snd (invoke Step3 env st)) = serializedTransaction st"
  "secondSignerSignature (snd (invoke Step3 env st)) = secondSignerSignature st"
  by (simp_all add: step3_FirstSignerSubmit_def handler_slots step3_try_frame split: option.splits)

lemma step2_guarded_write:
  "serializedTransaction st = [] \<Longrightarrow>
   secondSignerSignature (snd (invoke Step2 env st)) = secondSignerSignature st"
  by (simp add: step2_SecondSignerSign_def split: option.splits)

lemma invoke_keeps_transaction:
  assumes "tx_hex_nonempty env" and "serializedTransaction st \<noteq> []"
  shows "serializedTransaction (snd (invoke s env st)) \<noteq> []"
proof (cases s)
  case Step1
  from step1_transaction_cases [of env st] assms show ?thesis
    unfolding Step1 tx_hex_nonempty_def by metis
next
  case Step2
  with assms show ?thesis using step2_keeps_transaction [of env st] by simp
next
  case Step3
  with assms show ?thesis using step3_keeps_slots(1) [of env st] by simp
qed

lemma invoke_writes_authenticator:
  assumes "secondSignerSignature (snd (invoke s env st)) \<noteq> secondSignerSignature st"
  shows "s = Step2 \<and> serializedTransaction st \<noteq> []"
proof (cases s)
  case Step1
  with assms step1_keeps_authenticator [of env st] show ?thesis by simp
next
  case Step2
  with assms step2_guarded_write [of st env] show ?thesis by auto
next
  case Step3
  with assms step3_keeps_slots(2) [of env st] show ?thesis by simp
qed

lemma invoke_keeps_consistent:
  assumes "tx_hex_nonempty env"
    and "secondSignerSignature st \<noteq> [] \<longrightarrow> serializedTransaction st \<noteq> []"
  shows "secondSignerSignature (snd (invoke s env st)) \<noteq> []
           \<longrightarrow> serializedTransaction (snd (invoke s env st)) \<noteq> []"
proof (cases "serializedTransaction st = []")
  case False
  with assms(1) show ?thesis by (simp add: invoke_keeps_transaction del: invoke.simps)
next
  case True
  with assms(2) have "secondSignerSignature st = []" by blast
  moreover from True invoke_writes_authenticator [of s env st]
  have "secondSignerSignature (snd (invoke s env st)) = secondSignerSignature st" by blast
  ultimately show ?thesis by simp
qed

lemma run_keeps_consistent:
  assumes "\<forall>(s, env) \<in> set steps. tx_hex_nonempty env"
    and "secondSignerSignature st \<noteq> [] \<longrightarrow> serializedTransaction st \<noteq> []"
  shows "secondSignerSignature (run steps st) \<noteq> [] \<longrightarrow> serializedTransaction (run steps st) \<noteq> []"
  using assms
proof (induction steps arbitrary: st)
  case Nil
  then show ?case by simp
next
  case (Cons p steps)
  obtain s env where p: "p = (s, env)" by (cases p)
  with Cons.prems have sdk: "tx_hex_nonempty env"
    and rest: "\<forall>(s, env) \<in> set steps. tx_hex_nonempty env"
    by simp_all
  from invoke_keeps_consistent [OF sdk Cons.prems(2)]
  have "secondSignerSignature (snd (invoke s env st)) \<noteq> []
           \<longrightarrow> serializedTransaction (snd (invoke s env st)) \<noteq> []" .
  from Cons.IH [OF rest this] show ?case by (simp add: p del: invoke.simps)
qed

text \<open>
  Claim C9. In a session that starts from the initial state and invokes the three handlers
  in any order and number, each in its own environment, a non-empty authenticator slot
  implies a non-empty transaction slot. The two reasons hold for every single invocation:
  a non-empty transaction slot stays non-empty, and the authenticator slot changes only in
  a Step 2 that found the transaction slot non-empty. The SDK is taken never to render a
  transaction as the empty string (\<open>tx_hex_nonempty\<close>).
\<close>

theorem authenticator_implies_transaction:
  assumes "\<forall>(s, env) \<in> set steps. tx_hex_nonempty env"
  shows "(secondSignerSignature (run steps initial_state) \<noteq> []
            \<longrightarrow> serializedTransaction (run steps initial_state) \<noteq> [])
       \<and> (tx_hex_nonempty env' \<and> serializedTransaction st \<noteq> []
            \<longrightarrow> serializedTransaction (snd (invoke s' env' st)) \<noteq> [])
       \<and> (secondSignerSignature (snd (invoke s' env' st)) \<noteq> secondSignerSignature st
            \<longrightarrow> s' = Step2 \<and> serializedTransaction st \<noteq> [])"
proof (intro conjI)
  show "secondSignerSignature (run steps initial_state) \<noteq> []
            \<longrightarrow> serializedTransaction (run steps initial_state) \<noteq> []"
    by (rule run_keeps_consistent [OF assms]) simp
  show "tx_hex_nonempty env' \<and> serializedTransaction st \<noteq> []
            \<longrightarrow> serializedTransaction (snd (invoke s' env' st)) \<noteq> []"
    using invoke_keeps_transaction by blast
  show "secondSignerSignature (snd (invoke s' env' st)) \<noteq> secondSignerSignature st
            \<longrightarrow> s' = Step2 \<and> serializedTransaction st \<noteq> []"
    using invoke_writes_authenticator by blast
qed

text \<open>
  A session of Step 1 and Step 2 with the mocks: both slots are filled, and the
  authenticator was written by a Step 2 that found the transaction.
\<close>

theorem authenticator_implies_transaction_witness:
  "tx_hex_nonempty mock_env \<and> tx_hex_nonempty mock_env2
   \<and> secondSignerSignature (run [(Step1, mock_env), (Step2, mock_env2)] initial_state) = ''0xa2''
   \<and> serializedTransaction (run [(Step1, mock_env), (Step2, mock_env2)] initial_state) \<noteq> []
   \<and> secondSignerSignature (snd (invoke Step2 mock_env2 (run [(Step1, mock_env)] initial_state)))
       \<noteq> secondSignerSignature (run [(Step1, mock_env)] initial_state)
   \<and> serializedTransaction (run [(Step1, mock_env)] initial_state) \<noteq> []"
proof -
  define A :: "(string, nat, nat) state" where "A = snd (invoke Step1 mock_env initial_state)"
  define B where "B = snd (invoke Step2 mock_env2 A)"
  have runs: "run [(Step1, mock_env)] initial_state = A"
    "run [(Step1, mock_env), (Step2, mock_env2)] initial_state = B"
    by (simp_all add: A_def B_def)
  have A: "serializedTransaction A = ''0x07''" "secondSignerSignature A = []"
    unfolding A_def by (simp_all add: handler_defs)
  have B: "secondSignerSignature B = ''0xa2''"
    unfolding B_def using A by (simp add: handler_defs)
  have sdk: "\<forall>(s, env) \<in> set [(Step1, mock_env), (Step2, mock_env2)]. tx_hex_nonempty env"
    by simp
  from authenticator_implies_transaction [OF sdk, of mock_env2 A Step2] A B
  have "serializedTransaction (run [(Step1, mock_env), (Step2, mock_env2)] initial_state) \<noteq> []"
    and "serializedTransaction A \<noteq> []"
    unfolding runs B_def [symmetric] by simp_all
  with A B show ?thesis unfolding runs B_def [symmetric] by simp
qed

subsection \<open>The second signer's address\<close>

text \<open>
  When Step 1 has put its question to the operator, the script was fetched before, and a
  non-empty answer is in \<open>secondSignerAddress\<close> whatever happens next.
\<close>

lemma step1_try_prompted:
  "Prompt q \<notin> set (drop (length (calls s)) (calls (snd (step1_try env a s))))
   \<or> (case prompt env ''Enter second signer address (0x...):'' of
         None \<Rightarrow> True
       | Some x \<Rightarrow> x = [] \<or> secondSignerAddress (snd (step1_try env a s)) = x)"
  "Prompt q \<notin> set (drop (length (calls s)) (calls (snd (step1_try env a s))))
   \<or> (\<exists>resp code. fetch env ''/transfer_two_by_two.mv'' = Inr resp \<and> arrayBuffer resp = Inr code)"
  by (simp_all add: step1_try_def loadScript_def Let_def
      split: sum.splits option.splits prod.splits)

text \<open>
  Claim C10. In an invocation of Step 1 in which the operator is asked for the second
  signer's address and answers with a non-empty string \<open>x\<close>, the component's
  \<open>secondSignerAddress\<close> is \<open>x\<close> afterwards, however the invocation ends: the address
  is stored before \<^verbatim>\<open>AccountAddress.from\<close>, the construction and the serialization run,
  and none of their outcomes takes it back. When the invocation ends in a failure, the two
  relay slots are as before while the address is the new one. The script has been fetched
  by the time the operator is asked, so the fetch cannot fail after the answer.
\<close>

theorem supplied_address_is_stored:
  assumes asked: "Prompt ''Enter second signer address (0x...):''
                    \<in> set (issued_since st (snd (invoke Step1 env st)))"
    and answer: "prompt env ''Enter second signer address (0x...):'' = Some x"
    and nonempty: "x \<noteq> []"
  shows "secondSignerAddress (snd (invoke Step1 env st)) = x
       \<and> (\<exists>resp code. fetch env ''/transfer_two_by_two.mv'' = Inr resp \<and> arrayBuffer resp = Inr code)
       \<and> (\<forall>e. ending_of Step1 env st = Ended (Threw e) \<longrightarrow>
            serializedTransaction (snd (invoke Step1 env st)) = serializedTransaction st
            \<and> secondSignerSignature (snd (invoke Step1 env st)) = secondSignerSignature st)"
proof (intro conjI allI impI)
  show "secondSignerAddress (snd (invoke Step1 env st)) = x"
  proof (cases "account env")
    case None
    with asked show ?thesis
      by (simp add: step1_CreateTransaction_def issued_since_def)
  next
    case (Some a)
    with asked have "Prompt ''Enter second signer address (0x...):''
        \<in> set (drop (length (calls (clearLogs (setLoading True st))))
                 (calls (snd (step1_try env a (clearLogs (setLoading True st))))))"
      by (simp add: step1_CreateTransaction_def issued_since_def handler_slots)
    with step1_try_prompted(1) [of "''Enter second signer address (0x...):''"
        "clearLogs (setLoading True st)" env a] answer nonempty
    have "secondSignerAddress (snd (step1_try env a (clearLogs (setLoading True st)))) = x"
      by simp
    with Some show ?thesis by (simp add: step1_CreateTransaction_def handler_slots)
  qed
next
  show "\<exists>resp code. fetch env ''/transfer_two_by_two.mv'' = Inr resp \<and> arrayBuffer resp = Inr code"
  proof (cases "account env")
    case None
    with asked show ?thesis
      by (simp add: step1_CreateTransaction_def issued_since_def)
  next
    case (Some a)
    with asked have "Prompt ''Enter second signer address (0x...):''
        \<in> set (drop (length (calls (clearLogs (setLoading True st))))
                 (calls (snd (step1_try env a (clearLogs (setLoading True st))))))"
      by (simp add: step1_CreateTransaction_def issued_since_def handler_slots)
    with step1_try_prompted(2) [of "''Enter second signer address (0x...):''"
        "clearLogs (setLoading True st)" env a]
    show ?thesis by blast
  qed
next
  fix e assume "ending_of Step1 env st = Ended (Threw e)"
  then have "ending_of Step1 env st \<noteq> Ended Completed" by simp
  then show "serializedTransaction (snd (invoke Step1 env st)) = serializedTransaction st"
    by (rule step1_failed_keeps_transaction)
next
  fix e
  show "secondSignerSignature (snd (invoke Step1 env st)) = secondSignerSignature st"
    by (rule step1_keeps_authenticator)
qed

text \<open>
  The operator names the second signer, then the SDK refuses to build: the name is stored,
  the relay slots are not.
\<close>

theorem supplied_address_is_stored_witness:
  "Prompt ''Enter second signer address (0x...):''
     \<in> set (issued_since (initial_state\<lparr>secondSignerAddress := ''0xdead''\<rparr>)
          (snd (invoke Step1 mock_env_rejecting (initial_state\<lparr>secondSignerAddress := ''0xdead''\<rparr>))))
   \<and> prompt mock_env_rejecting ''Enter second signer address (0x...):'' = Some ''0xb0b''
   \<and> ''0xb0b'' \<noteq> []
   \<and> ending_of Step1 mock_env_rejecting (initial_state\<lparr>secondSignerAddress := ''0xdead''\<rparr>)
       = Ended (Threw (ErrorObject ''Error'' ''Account not found''))
   \<and> secondSignerAddress
        (snd (invoke Step1 mock_env_rejecting (initial_state\<lparr>secondSignerAddress := ''0xdead''\<rparr>)))
       = ''0xb0b''
   \<and> serializedTransaction
        (snd (invoke Step1 mock_env_rejecting (initial_state\<lparr>secondSignerAddress := ''0xdead''\<rparr>)))
       = []"
proof -
  let ?st = "initial_state\<lparr>secondSignerAddress := ''0xdead''\<rparr> :: (string, nat, nat) state"
  have asked: "Prompt ''Enter second signer address (0x...):''
     \<in> set (issued_since ?st (snd (invoke Step1 mock_env_rejecting ?st)))"
    by (simp add: handler_defs)
  have answer: "prompt mock_env_rejecting ''Enter second signer address (0x...):'' = Some ''0xb0b''"
    by simp
  have nonempty: "''0xb0b'' \<noteq> []" by simp
  have thrown: "ending_of Step1 mock_env_rejecting ?st
       = Ended (Threw (ErrorObject ''Error'' ''Account not found''))"
    by (simp add: handler_defs)
  from supplied_address_is_stored [OF asked answer nonempty] thrown
  have "secondSignerAddress (snd (invoke Step1 mock_env_rejecting ?st)) = ''0xb0b''"
    and "serializedTransaction (snd (invoke Step1 mock_env_rejecting ?st)) = serializedTransaction ?st"
    by blast+
  with asked answer nonempty thrown show ?thesis by simp
qed

end
